theory Spec2Isabelle
  imports Main
begin

section \<open>Data model\<close>

text \<open>
  The operations of \<^verbatim>\<open>src/ops/ServiceOps.ts\<close> and the script operations that follow it in
  the same source file talk to a remote backend through the functions of
  \<^verbatim>\<open>api/ServiceApi\<close> and \<^verbatim>\<open>api/ScriptApi\<close>. The backend is a parameter of every definition
  below: a value of an arbitrary type \<open>'w\<close> (the remote state) and one function per API
  call.

  A rejected promise or a thrown exception is a value \<open>Inl e\<close>; a resolved promise is
  \<open>Inr v\<close>. The JavaScript value \<^verbatim>\<open>undefined\<close> for an optional field or result is \<open>None\<close>.
\<close>

record response =
  status :: nat
  message :: "string option"
  detail :: "string option"

text \<open>
  An error thrown by an API call has a message (\<^verbatim>\<open>e.message\<close>) and an optional
  \<^verbatim>\<open>response\<close> (absent for a network fault); \<open>message\<close> and \<open>detail\<close> of the response
  stand for \<^verbatim>\<open>response.data.message\<close> and \<^verbatim>\<open>response.data.detail\<close>. A \<open>TypeError\<close> is
  what the runtime throws on reading a property of \<^verbatim>\<open>undefined\<close>; it has no response.
\<close>

datatype error = RequestError string "response option" | TypeError string

fun error_message :: "error \<Rightarrow> string" where
  "error_message (RequestError m r) = m"
| "error_message (TypeError m) = m"

fun response_status :: "error \<Rightarrow> nat option" where
  "response_status (RequestError m (Some r)) = Some (status r)"
| "response_status _ = None"

fun response_message :: "error \<Rightarrow> string option" where
  "response_message (RequestError m (Some r)) = message r"
| "response_message _ = None"

fun response_detail :: "error \<Rightarrow> string option" where
  "response_detail (RequestError m (Some r)) = detail r"
| "response_detail _ = None"

text \<open>Interpolation of a possibly undefined string into a template literal.\<close>

fun interpolate :: "string option \<Rightarrow> string" where
  "interpolate None = ''undefined''"
| "interpolate (Some s) = s"

text \<open>A string between single quotes, as the messages show identifiers.\<close>

definition quoted :: "string \<Rightarrow> string" where
  "quoted s = [CHR 0x27] @ s @ [CHR 0x27]"

text \<open>
  \<^verbatim>\<open>ServiceNextDescendent\<close>: \<open>descendent_id\<close> is \<^verbatim>\<open>_id\<close>, \<open>descendent_type_id\<close> is
  \<^verbatim>\<open>_type._id\<close>; all other fields are opaque to the operations.
\<close>

record ServiceNextDescendent =
  descendent_id :: string
  descendent_type_id :: string
  descendent_props :: "(string \<times> string) list"

text \<open>
  \<^verbatim>\<open>FullService extends AmServiceSkeleton\<close>: \<open>service_id\<close> is \<^verbatim>\<open>_id\<close>, \<open>service_type_id\<close>
  is \<^verbatim>\<open>_type._id\<close>, \<open>service_rev\<close> is \<^verbatim>\<open>_rev\<close>. The three fields the import deletes are optional.
  An \<^verbatim>\<open>AmServiceSkeleton\<close> is the same record with \<open>nextDescendents = None\<close>.
\<close>

record FullService =
  service_id :: string
  service_type_id :: string
  service_rev :: "string option"
  enabled :: "bool option"
  nextDescendents :: "ServiceNextDescendent list option"
  props :: "(string \<times> string) list"

type_synonym AmServiceSkeleton = FullService

text \<open>
  A script object: \<open>script_id\<close> is \<^verbatim>\<open>_id\<close>; \<open>script\<close> is the script body; the other
  fields are opaque to the operations.
\<close>

record ScriptSkeleton =
  script_id :: string
  name :: string
  script :: string
  script_props :: "(string \<times> string) list"

text \<open>The requests issued to the backend, in the order in which they are issued.\<close>

datatype call =
    GetListOfServices
  | GetService string
  | GetServiceDescendents string
  | PutService string FullService
  | PutServiceNextDescendent string string string ServiceNextDescendent
  | DeleteService string
  | DeleteServiceNextDescendent string string string
  | PutScript string ScriptSkeleton

text \<open>
  The functions imported from \<^verbatim>\<open>api/ServiceApi\<close>. Reads do not change the backend.

  The last field is no function of that module. When several requests are in flight and
  more than one of them fails, which failure arrives first is decided by the backend and
  the network, not by the operation that waits for them. \<open>settlesFirst\<close> stands for that
  decision: given the requests issued so far, which identify the \<^verbatim>\<open>Promise.all\<close> that is
  waiting, it gives the position, among the rejections in array order, of the rejection
  that settles first. Every definition and every statement below holds for an arbitrary
  \<open>settlesFirst\<close>.
\<close>

record 'w ServiceApi =
  getListOfServices :: "'w \<Rightarrow> error + AmServiceSkeleton list"
  getService :: "string \<Rightarrow> 'w \<Rightarrow> error + AmServiceSkeleton"
  getServiceDescendents :: "string \<Rightarrow> 'w \<Rightarrow> error + ServiceNextDescendent list"
  putService :: "string \<Rightarrow> FullService \<Rightarrow> 'w \<Rightarrow> (error + AmServiceSkeleton) \<times> 'w"
  putServiceNextDescendent ::
    "string \<Rightarrow> string \<Rightarrow> string \<Rightarrow> ServiceNextDescendent \<Rightarrow> 'w
      \<Rightarrow> (error + ServiceNextDescendent) \<times> 'w"
  deleteService :: "string \<Rightarrow> 'w \<Rightarrow> (error + unit) \<times> 'w"
  deleteServiceNextDescendent :: "string \<Rightarrow> string \<Rightarrow> string \<Rightarrow> 'w \<Rightarrow> (error + unit) \<times> 'w"
  settlesFirst :: "call list \<Rightarrow> nat"

text \<open>
  The state threaded through every operation: the backend, the store of service objects
  held by the caller (an object is passed by reference, so \<^verbatim>\<open>delete obj.f\<close> is seen by
  every holder of the reference), the requests issued so far and the lines handed to
  \<^verbatim>\<open>printMessage\<close> with their level. \<^verbatim>\<open>debugMessage\<close> output is not recorded.
\<close>

record 'w state =
  remote :: 'w
  heap :: "nat \<Rightarrow> FullService option"
  calls :: "call list"
  console :: "(string \<times> string) list"

definition printMessage :: "string \<Rightarrow> string \<Rightarrow> 'w state \<Rightarrow> 'w state" where
  "printMessage msg level st = st\<lparr>console := console st @ [(msg, level)]\<rparr>"

text \<open>A read request and a write request: the call is recorded, a write replaces the backend.\<close>

definition fetch :: "call \<Rightarrow> ('w \<Rightarrow> error + 'a) \<Rightarrow> 'w state \<Rightarrow> (error + 'a) \<times> 'w state" where
  "fetch c f st = (f (remote st), st\<lparr>calls := calls st @ [c]\<rparr>)"

definition send ::
  "call \<Rightarrow> ('w \<Rightarrow> (error + 'a) \<times> 'w) \<Rightarrow> 'w state \<Rightarrow> (error + 'a) \<times> 'w state" where
  "send c f st =
     (case f (remote st) of (r, w) \<Rightarrow> (r, st\<lparr>remote := w, calls := calls st @ [c]\<rparr>))"

text \<open>
  \<^verbatim>\<open>xs.map(f)\<close> with an asynchronous \<open>f\<close> starts every callback, whatever the others do.
  The model runs the callbacks one after the other in array order: the backend handles the
  requests in the order in which they were issued. The order in which their answers
  arrive is left open, see \<open>promiseAll\<close>.
\<close>

fun mapAsync :: "('a \<Rightarrow> 's \<Rightarrow> 'r \<times> 's) \<Rightarrow> 'a list \<Rightarrow> 's \<Rightarrow> 'r list \<times> 's" where
  "mapAsync f [] st = ([], st)"
| "mapAsync f (x # xs) st =
     (case f x st of (r, st1) \<Rightarrow>
        (case mapAsync f xs st1 of (rs, st2) \<Rightarrow> (r # rs, st2)))"

text \<open>The rejections and the values among a list of settled promises, in array order.\<close>

fun rejections :: "(error + 'r) list \<Rightarrow> error list" where
  "rejections [] = []"
| "rejections (Inl e # rs) = e # rejections rs"
| "rejections (Inr v # rs) = rejections rs"

fun resolved :: "(error + 'a) list \<Rightarrow> 'a list" where
  "resolved [] = []"
| "resolved (Inl e # rs) = resolved rs"
| "resolved (Inr v # rs) = v # resolved rs"

text \<open>
  \<^verbatim>\<open>Promise.all\<close> on promises that have all been started. When none rejects it resolves to
  the list of their values. Otherwise it rejects with the rejection that settles first:
  \<open>k\<close> is the position of that rejection among the rejections in array order (taken
  modulo their number, so that every \<open>k\<close> names one of them).
\<close>

definition promiseAll :: "nat \<Rightarrow> (error + 'r) list \<Rightarrow> error + 'r list" where
  "promiseAll k rs =
     (case rejections rs of
        [] \<Rightarrow> Inr (resolved rs)
      | e # es \<Rightarrow> Inl ((e # es) ! (k mod length (e # es))))"

section \<open>Service operations\<close>

subsection \<open>deleteFullService\<close>

text \<open>
  The argument of \<^verbatim>\<open>Promise.all\<close> in \<^verbatim>\<open>deleteFullService\<close>: one
  \<^verbatim>\<open>deleteServiceNextDescendent\<close> request per listed descendent, none of them awaited
  before the next is issued.
\<close>

definition deleteCall :: "string \<Rightarrow> ServiceNextDescendent \<Rightarrow> call" where
  "deleteCall serviceId nextDescendent =
     DeleteServiceNextDescendent serviceId
       (descendent_type_id nextDescendent) (descendent_id nextDescendent)"

definition deleteNextDescendents ::
  "'w ServiceApi \<Rightarrow> string \<Rightarrow> ServiceNextDescendent list \<Rightarrow> 'w state
    \<Rightarrow> (error + unit) list \<times> 'w state" where
  "deleteNextDescendents api serviceId serviceNextDescendentData st =
     mapAsync
       (\<lambda>nextDescendent.
          send (deleteCall serviceId nextDescendent)
               (deleteServiceNextDescendent api serviceId
                  (descendent_type_id nextDescendent) (descendent_id nextDescendent)))
       serviceNextDescendentData st"

definition deleteFullService :: "'w ServiceApi \<Rightarrow> string \<Rightarrow> 'w state \<Rightarrow> (error + unit) \<times> 'w state" where
  "deleteFullService api serviceId st =
     (case fetch (GetServiceDescendents serviceId) (getServiceDescendents api serviceId) st of
        (Inl e, st1) \<Rightarrow> (Inl e, st1)
      | (Inr serviceNextDescendentData, st1) \<Rightarrow>
          (case deleteNextDescendents api serviceId serviceNextDescendentData st1 of
             (rs, st2) \<Rightarrow>
               (case promiseAll (settlesFirst api (calls st2)) rs of
                  Inl e \<Rightarrow> (Inl e, st2)
                | Inr _ \<Rightarrow> send (DeleteService serviceId) (deleteService api serviceId) st2)))"

subsection \<open>getFullServices\<close>

text \<open>
  The test of the \<^verbatim>\<open>catch\<close> block of \<^verbatim>\<open>getFullServices\<close>: status 403 with the message of a
  backend that lacks the operation.
\<close>

definition notAvailableInCloud :: "error \<Rightarrow> bool" where
  "notAvailableInCloud e \<longleftrightarrow>
     response_status e = Some 403 \<and>
     response_message e = Some ''This operation is not available in ForgeRock Identity Cloud.''"

text \<open>
  The inner \<^verbatim>\<open>Promise.all([getService(id), getServiceDescendents(id)])\<close>: both requests are
  issued. It resolves to the pair of values when both resolve, rejects with the one
  rejection when one of them rejects, and when both reject it rejects with the one that
  settles first: the first of the array for an even \<open>k\<close>, the second for an odd \<open>k\<close>.
\<close>

definition promiseAll2 :: "nat \<Rightarrow> error + 'a \<Rightarrow> error + 'b \<Rightarrow> error + ('a \<times> 'b)" where
  "promiseAll2 k r1 r2 =
     (case r1 of
        Inl e1 \<Rightarrow> (case r2 of
                     Inl e2 \<Rightarrow> Inl ([e1, e2] ! (k mod 2))
                   | Inr v2 \<Rightarrow> Inl e1)
      | Inr v1 \<Rightarrow> (case r2 of
                     Inl e2 \<Rightarrow> Inl e2
                   | Inr v2 \<Rightarrow> Inr (v1, v2)))"

text \<open>
  The callback of \<^verbatim>\<open>serviceList.map\<close>: it never rejects; on an error it resolves to
  \<^verbatim>\<open>undefined\<close>.
\<close>

definition getFullServices_item ::
  "'w ServiceApi \<Rightarrow> AmServiceSkeleton \<Rightarrow> 'w state \<Rightarrow> FullService option \<times> 'w state" where
  "getFullServices_item api listItem st =
     (case fetch (GetService (service_id listItem)) (getService api (service_id listItem)) st of
        (r1, st1) \<Rightarrow>
     (case fetch (GetServiceDescendents (service_id listItem))
                 (getServiceDescendents api (service_id listItem)) st1 of
        (r2, st2) \<Rightarrow>
     (case promiseAll2 (settlesFirst api (calls st2)) r1 r2 of
        Inr (service, nextDescendents') \<Rightarrow>
          (Some (service\<lparr>nextDescendents := Some nextDescendents'\<rparr>), st2)
      | Inl error \<Rightarrow>
          if \<not> notAvailableInCloud error
          then (None,
                printMessage (''Unable to retrieve data for '' @ service_id listItem @
                              '' with error: '' @ interpolate (response_message error))
                             ''error'' st2)
          else (None, st2))))"

definition getFullServices :: "'w ServiceApi \<Rightarrow> 'w state \<Rightarrow> (error + FullService list) \<times> 'w state" where
  "getFullServices api st =
     (case fetch GetListOfServices (getListOfServices api) st of
        (Inl e, st1) \<Rightarrow> (Inl e, st1)
      | (Inr serviceList, st1) \<Rightarrow>
          (case mapAsync (getFullServices_item api) serviceList st1 of
             (fullServiceData, st2) \<Rightarrow> (Inr (List.map_filter (\<lambda>data. data) fullServiceData), st2)))"

subsection \<open>putFullService\<close>

text \<open>The \<^verbatim>\<open>if (clean)\<close> block: the deletion of the existing tree and its \<^verbatim>\<open>catch\<close>.\<close>

definition notFound :: "error \<Rightarrow> bool" where
  "notFound e \<longleftrightarrow> response_status e = Some 404 \<and> response_message e = Some ''Not Found''"

definition putFullService_clean :: "'w ServiceApi \<Rightarrow> string \<Rightarrow> 'w state \<Rightarrow> 'w state" where
  "putFullService_clean api serviceId st =
     (case deleteFullService api serviceId st of
        (Inr _, st1) \<Rightarrow> st1
      | (Inl error, st1) \<Rightarrow>
          if \<not> notFound error
          then printMessage (''Error deleting service '' @ quoted serviceId @ '' before import: '' @
                             interpolate (response_message error)) ''error'' st1
          else st1)"

text \<open>
  \<open>fullServiceData\<close> is a reference into the store, or \<open>None\<close> for \<^verbatim>\<open>undefined\<close> (what
  \<^verbatim>\<open>importData.service[serviceId]\<close> yields for a missing key); reading a property of
  \<^verbatim>\<open>undefined\<close> throws, and a reference at which the store holds no object is read as
  \<^verbatim>\<open>undefined\<close> too. The three \<^verbatim>\<open>delete\<close> statements write the store.
\<close>

definition stripped :: "FullService \<Rightarrow> FullService" where
  "stripped obj = obj\<lparr>nextDescendents := None, service_rev := None, enabled := None\<rparr>"

text \<open>
  \<^verbatim>\<open>putFullService\<close> up to the comment \<^verbatim>\<open>// create service first\<close>: the three \<^verbatim>\<open>delete\<close>
  statements on the object at \<open>ref\<close>, whose value on entry is \<open>obj\<close>, and the
  \<^verbatim>\<open>if (clean)\<close> block.
\<close>

definition putFullService_prepare ::
  "'w ServiceApi \<Rightarrow> string \<Rightarrow> nat \<Rightarrow> FullService \<Rightarrow> bool \<Rightarrow> 'w state \<Rightarrow> 'w state" where
  "putFullService_prepare api serviceId ref obj clean st =
     (let st0 = st\<lparr>heap := (heap st)(ref \<mapsto> stripped obj)\<rparr>
      in if clean then putFullService_clean api serviceId st0 else st0)"

definition putCall :: "string \<Rightarrow> ServiceNextDescendent \<Rightarrow> call" where
  "putCall serviceId descendent =
     PutServiceNextDescendent serviceId (descendent_type_id descendent)
       (descendent_id descendent) descendent"

text \<open>The callback of \<^verbatim>\<open>nextDescendents.map\<close>: it catches its own error and never rejects.\<close>

definition putFullService_descendent ::
  "'w ServiceApi \<Rightarrow> string \<Rightarrow> ServiceNextDescendent \<Rightarrow> 'w state
    \<Rightarrow> ServiceNextDescendent option \<times> 'w state" where
  "putFullService_descendent api serviceId descendent st =
     (case send (putCall serviceId descendent)
                (putServiceNextDescendent api serviceId (descendent_type_id descendent)
                   (descendent_id descendent) descendent) st of
        (Inr result, st1) \<Rightarrow> (Some result, st1)
      | (Inl error, st1) \<Rightarrow>
          (None,
           printMessage (''Put descendent '' @ quoted (descendent_id descendent) @ '' of service '' @
                         quoted serviceId @ '': '' @ interpolate (response_message error))
                        ''error'' st1))"

text \<open>
  The result \<open>Inr None\<close> is a promise resolved to \<^verbatim>\<open>undefined\<close>: the function reaches its
  end without a \<^verbatim>\<open>return\<close>. Nothing between the \<^verbatim>\<open>delete\<close> statements and
  \<^verbatim>\<open>putService\<close> writes the store, so the body handed to \<^verbatim>\<open>putService\<close> is the stripped
  object. \<open>nextDescendents'\<close> is the local constant read before the \<^verbatim>\<open>delete\<close>.
\<close>

definition putFullService ::
  "'w ServiceApi \<Rightarrow> string \<Rightarrow> nat option \<Rightarrow> bool \<Rightarrow> 'w state
    \<Rightarrow> (error + AmServiceSkeleton option) \<times> 'w state" where
  "putFullService api serviceId fullServiceData clean st =
     (case fullServiceData of
        None \<Rightarrow> (Inl (TypeError ''Cannot read properties of undefined (reading 'nextDescendents')''), st)
      | Some ref \<Rightarrow>
     (case heap st ref of
        None \<Rightarrow> (Inl (TypeError ''Cannot read properties of undefined (reading 'nextDescendents')''), st)
      | Some obj \<Rightarrow>
          let nextDescendents' = nextDescendents obj;
              st1 = putFullService_prepare api serviceId ref obj clean st
          in (case send (PutService serviceId (stripped obj))
                        (putService api serviceId (stripped obj)) st1 of
                (Inl e, st2) \<Rightarrow> (Inl e, st2)
              | (Inr result, st2) \<Rightarrow>
                  (case nextDescendents' of
                     None \<Rightarrow>
                       (Inl (TypeError ''Cannot read properties of undefined (reading 'length')''), st2)
                   | Some descendents \<Rightarrow>
                       if length descendents = 0 then (Inr (Some result), st2)
                       else (case mapAsync (putFullService_descendent api serviceId)
                                           descendents st2 of
                               (_, st3) \<Rightarrow> (Inr None, st3))))))"

subsection \<open>putFullServices, importService, importServices\<close>

text \<open>
  The \<^verbatim>\<open>catch\<close> block of the loop of \<^verbatim>\<open>putFullServices\<close>. \<open>detail\<close> holds the JSON text of
  \<^verbatim>\<open>response.data.detail\<close> when that value is truthy.
\<close>

definition putFullServices_catch :: "string \<Rightarrow> error \<Rightarrow> 'w state \<Rightarrow> 'w state" where
  "putFullServices_catch id' error st =
     (let st1 = printMessage (''Import service '' @ quoted id' @ '': '' @
                              interpolate (response_message error)) ''error'' st
      in case response_detail error of
           None \<Rightarrow> st1
         | Some d \<Rightarrow> printMessage (''Details: '' @ d) ''error'' st1)"

text \<open>
  The loop over \<open>serviceEntries\<close>, one entry after the other; \<open>results\<close> holds what the
  successful calls resolved to, in the order of the entries.
\<close>

fun putFullServices ::
  "'w ServiceApi \<Rightarrow> (string \<times> nat) list \<Rightarrow> bool \<Rightarrow> 'w state
    \<Rightarrow> AmServiceSkeleton option list \<times> 'w state" where
  "putFullServices api [] clean st = ([], st)"
| "putFullServices api ((id', data) # serviceEntries) clean st =
     (case putFullService api id' (Some data) clean st of
        (Inr result, st1) \<Rightarrow>
          (case putFullServices api serviceEntries clean
                  (printMessage (''Imported: '' @ id') ''info'' st1) of
             (results, st2) \<Rightarrow> (result # results, st2))
      | (Inl error, st1) \<Rightarrow>
          putFullServices api serviceEntries clean (putFullServices_catch id' error st1))"

text \<open>
  \<^verbatim>\<open>ServiceExportInterface\<close>: \<open>service\<close> lists the entries of \<^verbatim>\<open>importData.service\<close> in the
  order of \<^verbatim>\<open>Object.entries\<close>, each value a reference into the store; it is \<open>None\<close> when
  the envelope has no \<^verbatim>\<open>service\<close> key, where \<^verbatim>\<open>Object.entries\<close> and the property read
  \<^verbatim>\<open>importData.service[serviceId]\<close> throw.
\<close>

record ServiceExportInterface =
  meta :: "(string \<times> string) list"
  service :: "(string \<times> nat) list option"

definition importService ::
  "'w ServiceApi \<Rightarrow> string \<Rightarrow> ServiceExportInterface \<Rightarrow> bool \<Rightarrow> 'w state
    \<Rightarrow> (error + AmServiceSkeleton option) \<times> 'w state" where
  "importService api serviceId importData clean st =
     (case service importData of
        None \<Rightarrow> (Inl (TypeError ''Cannot read properties of undefined''), st)
      | Some entries \<Rightarrow> putFullService api serviceId (map_of entries serviceId) clean st)"

definition importServices ::
  "'w ServiceApi \<Rightarrow> ServiceExportInterface \<Rightarrow> bool \<Rightarrow> 'w state
    \<Rightarrow> (error + AmServiceSkeleton option list) \<times> 'w state" where
  "importServices api importData clean st =
     (case service importData of
        None \<Rightarrow>
          (let error = TypeError ''Cannot convert undefined or null to object''
           in (Inl error,
               printMessage (''Unable to import services: error: '' @
                             interpolate (response_message error)) ''error'' st))
      | Some entries \<Rightarrow>
          (case putFullServices api entries clean st of (result, st1) \<Rightarrow> (Inr result, st1)))"

section \<open>Script operations\<close>

subsection \<open>createOrUpdateScript\<close>

text \<open>
  \<^verbatim>\<open>putScript\<close> (of \<^verbatim>\<open>api/ScriptApi\<close>) and \<^verbatim>\<open>applyNameCollisionPolicy\<close> (of
  \<^verbatim>\<open>ops/utils/OpsUtils\<close>) are parameters. The status object \<^verbatim>\<open>{ error, name }\<close> that the
  function returns is the record \<open>ScriptStatus\<close>.

  \<open>data\<close> is passed by reference and \<^verbatim>\<open>data.name = newName\<close> writes it, so the function
  also returns the object as it is after the call; \<^verbatim>\<open>data.name\<close> in the \<^verbatim>\<open>return\<close> that
  follows the recursive call reads the object after that call. The recursive call never
  rejects (its only \<^verbatim>\<open>await\<close> outside the \<^verbatim>\<open>try\<close> is this same call), and its status
  object is discarded. The recursion has no bound, so the function is partial: \<open>None\<close>
  stands for a call that never returns.
\<close>

record ScriptStatus =
  failed :: bool
  saved_name :: string

partial_function (option) createOrUpdateScript ::
  "(string \<Rightarrow> ScriptSkeleton \<Rightarrow> 'w \<Rightarrow> (error + unit) \<times> 'w) \<Rightarrow> (string \<Rightarrow> string)
    \<Rightarrow> string \<Rightarrow> ScriptSkeleton \<Rightarrow> 'w state
    \<Rightarrow> (ScriptStatus \<times> ScriptSkeleton \<times> 'w state) option" where
  "createOrUpdateScript putScript applyNameCollisionPolicy id' data st =
     (case send (PutScript id' data) (putScript id' data) st of
        (Inr _, st1) \<Rightarrow> Some (\<lparr>failed = False, saved_name = name data\<rparr>, data, st1)
      | (Inl e, st1) \<Rightarrow>
          if response_status e = Some 409
          then
            (let st2 = printMessage
                         (''createOrUpdateScript WARNING: script with name '' @ name data @
                          '' already exists, using renaming policy... <name> => <name - imported (n)>'')
                         ''warn'' st1;
                 newName = applyNameCollisionPolicy (name data);
                 st3 = printMessage (''Trying to save script as '' @ newName) ''warn'' st2
             in Option.bind
                  (createOrUpdateScript putScript applyNameCollisionPolicy id'
                     (data\<lparr>name := newName\<rparr>) st3)
                  (\<lambda>(_, data', st4).
                     Some (\<lparr>failed = False, saved_name = name data'\<rparr>, data', st4)))
          else
            Some (\<lparr>failed = True, saved_name = name data\<rparr>, data,
                  printMessage (''createOrUpdateScript ERROR: put script error, script '' @ id' @
                                '' - '' @ error_message e) ''error'' st1))"

declare createOrUpdateScript.simps [code]

text \<open>
  A backend answers \<open>n\<close> successive puts of the same script with a conflict, the script
  renamed by the policy after each, and accepts the next one.
\<close>

fun conflictsThenAccepts ::
  "(string \<Rightarrow> ScriptSkeleton \<Rightarrow> 'w \<Rightarrow> (error + unit) \<times> 'w) \<Rightarrow> (string \<Rightarrow> string)
    \<Rightarrow> string \<Rightarrow> ScriptSkeleton \<Rightarrow> 'w \<Rightarrow> nat \<Rightarrow> bool" where
  "conflictsThenAccepts putScript policy id' data w 0 =
     (case putScript id' data w of (Inr _, _) \<Rightarrow> True | (Inl _, _) \<Rightarrow> False)"
| "conflictsThenAccepts putScript policy id' data w (Suc n) =
     (case putScript id' data w of
        (Inr _, _) \<Rightarrow> False
      | (Inl e, w') \<Rightarrow>
          response_status e = Some 409 \<and>
          conflictsThenAccepts putScript policy id' (data\<lparr>name := policy (name data)\<rparr>) w' n)"

text \<open>
  Modelled from the spec: \<^verbatim>\<open>applyNameCollisionPolicy\<close> is defined in
  \<^verbatim>\<open>ops/utils/OpsUtils\<close>, which is not among the sources. The spec gives the names
  \<^verbatim>\<open><base> - imported (<n>)\<close> for increasing \<open>n\<close>: a name that does not end in such a
  suffix gets the suffix with \<open>n = 1\<close>, a name that does gets \<open>n + 1\<close>
  (\<^verbatim>\<open>myScript\<close>, \<^verbatim>\<open>myScript - imported (1)\<close>, \<^verbatim>\<open>myScript - imported (2)\<close>).
\<close>

definition isDigit :: "char \<Rightarrow> bool" where
  "isDigit c \<longleftrightarrow> c \<in> set ''0123456789''"

definition parseInt :: "string \<Rightarrow> nat" where
  "parseInt ds = foldl (\<lambda>n c. 10 * n + (of_char c - 48)) 0 ds"

fun decimal :: "nat \<Rightarrow> string" where
  "decimal n = (if n < 10 then [char_of (48 + n)] else decimal (n div 10) @ [char_of (48 + n mod 10)])"

definition applyNameCollisionPolicy :: "string \<Rightarrow> string" where
  "applyNameCollisionPolicy nm =
     (case List.rev nm of
        [] \<Rightarrow> nm @ '' - imported (1)''
      | c # r \<Rightarrow>
          let ds = takeWhile isDigit r; r' = dropWhile isDigit r
          in if c = CHR '')'' \<and> ds \<noteq> [] \<and> take 13 r' = List.rev '' - imported (''
             then List.rev r' @ decimal (parseInt (List.rev ds) + 1) @ '')''
             else nm @ '' - imported (1)'')"

subsection \<open>The content transform of script bodies\<close>

text \<open>
  Modelled from the spec: \<^verbatim>\<open>convertBase64TextToArray\<close> and \<^verbatim>\<open>convertTextArrayToBase64\<close>
  are defined in \<^verbatim>\<open>ops/utils/ExportImportUtils\<close>, which is not among the sources. The spec
  has a text blob encoded to a sequence of lines and decoded back, the empty content
  giving the empty sequence, and leaves the text encoding of the blob aside: the blob is
  the text, a line ends at a line feed, and the lines are joined by line feeds.
\<close>

fun splitLines :: "string \<Rightarrow> string list" where
  "splitLines [] = [[]]"
| "splitLines (c # cs) =
     (if c = CHR 0x0A then [] # splitLines cs
      else (case splitLines cs of [] \<Rightarrow> [[c]] | l # ls \<Rightarrow> (c # l) # ls))"

fun joinLines :: "string list \<Rightarrow> string" where
  "joinLines [] = []"
| "joinLines [l] = l"
| "joinLines (l # ls) = l @ CHR 0x0A # joinLines ls"

definition convertBase64TextToArray :: "string \<Rightarrow> string list" where
  "convertBase64TextToArray b64text = (if b64text = [] then [] else splitLines b64text)"

definition convertTextArrayToBase64 :: "string list \<Rightarrow> string" where
  "convertTextArrayToBase64 textArray = joinLines textArray"

section \<open>An in-memory backend for concrete runs\<close>

text \<open>
  A small backend on which the operations can be run: the stored services, the stored
  descendents with the id of their service, and two tables of faults. A request that names
  an id of the fault table fails with the error listed there; a request for the
  descendents of a service listed in the second table fails with the error listed there;
  a read or a delete of a service that is not stored fails with 404.
\<close>

record backend =
  stored :: "(string \<times> FullService) list"
  children :: "(string \<times> ServiceNextDescendent) list"
  faults :: "(string \<times> error) list"
  listing_faults :: "(string \<times> error) list"

definition httpError :: "nat \<Rightarrow> string \<Rightarrow> error" where
  "httpError code msg =
     RequestError ''Request failed'' (Some \<lparr>status = code, message = Some msg, detail = None\<rparr>)"

definition memGetService :: "string \<Rightarrow> backend \<Rightarrow> error + AmServiceSkeleton" where
  "memGetService i w =
     (case map_of (faults w) i of
        Some e \<Rightarrow> Inl e
      | None \<Rightarrow> (case map_of (stored w) i of
                   None \<Rightarrow> Inl (httpError 404 ''Not Found'')
                 | Some s \<Rightarrow> Inr s))"

definition memGetServiceDescendents :: "string \<Rightarrow> backend \<Rightarrow> error + ServiceNextDescendent list" where
  "memGetServiceDescendents i w =
     (case map_of (listing_faults w) i of
        Some e \<Rightarrow> Inl e
      | None \<Rightarrow>
          (case memGetService i w of
             Inl e \<Rightarrow> Inl e
           | Inr _ \<Rightarrow> Inr (map snd (filter (\<lambda>c. fst c = i) (children w)))))"

definition memPutService ::
  "string \<Rightarrow> FullService \<Rightarrow> backend \<Rightarrow> (error + AmServiceSkeleton) \<times> backend" where
  "memPutService i body w =
     (case map_of (faults w) i of
        Some e \<Rightarrow> (Inl e, w)
      | None \<Rightarrow>
          (Inr (body\<lparr>service_rev := Some ''1''\<rparr>),
           w\<lparr>stored := filter (\<lambda>s. fst s \<noteq> i) (stored w) @ [(i, body\<lparr>service_rev := Some ''1''\<rparr>)]\<rparr>))"

definition memPutServiceNextDescendent ::
  "string \<Rightarrow> string \<Rightarrow> string \<Rightarrow> ServiceNextDescendent \<Rightarrow> backend
    \<Rightarrow> (error + ServiceNextDescendent) \<times> backend" where
  "memPutServiceNextDescendent i t c body w =
     (case map_of (faults w) c of
        Some e \<Rightarrow> (Inl e, w)
      | None \<Rightarrow>
          (Inr body,
           w\<lparr>children :=
                filter (\<lambda>d. \<not> (fst d = i \<and> descendent_id (snd d) = c)) (children w) @ [(i, body)]\<rparr>))"

definition memDeleteService :: "string \<Rightarrow> backend \<Rightarrow> (error + unit) \<times> backend" where
  "memDeleteService i w =
     (case memGetService i w of
        Inl e \<Rightarrow> (Inl e, w)
      | Inr _ \<Rightarrow> (Inr (), w\<lparr>stored := filter (\<lambda>s. fst s \<noteq> i) (stored w)\<rparr>))"

definition memDeleteServiceNextDescendent ::
  "string \<Rightarrow> string \<Rightarrow> string \<Rightarrow> backend \<Rightarrow> (error + unit) \<times> backend" where
  "memDeleteServiceNextDescendent i t c w =
     (case map_of (faults w) c of
        Some e \<Rightarrow> (Inl e, w)
      | None \<Rightarrow>
          (Inr (),
           w\<lparr>children := filter (\<lambda>d. \<not> (fst d = i \<and> descendent_id (snd d) = c)) (children w)\<rparr>))"

definition memApi :: "backend ServiceApi" where
  "memApi =
     \<lparr>getListOfServices = (\<lambda>w. Inr (map snd (stored w))),
      getService = memGetService,
      getServiceDescendents = memGetServiceDescendents,
      putService = memPutService,
      putServiceNextDescendent = memPutServiceNextDescendent,
      deleteService = memDeleteService,
      deleteServiceNextDescendent = memDeleteServiceNextDescendent,
      settlesFirst = (\<lambda>h. 0)\<rparr>"

text \<open>The same backend when, of several failing requests, the second settles first.\<close>

definition memApi_second_first :: "backend ServiceApi" where
  "memApi_second_first = memApi\<lparr>settlesFirst := (\<lambda>h. 1)\<rparr>"

text \<open>The tree of the deletion scenario: service \<open>svc1\<close> with the children \<open>c1\<close> and \<open>c2\<close>.\<close>

definition child :: "string \<Rightarrow> string \<Rightarrow> ServiceNextDescendent" where
  "child t c = \<lparr>descendent_id = c, descendent_type_id = t, descendent_props = []\<rparr>"

definition svc :: "string \<Rightarrow> FullService" where
  "svc i = \<lparr>service_id = i, service_type_id = i, service_rev = Some ''7'', enabled = Some True,
            nextDescendents = None, props = []\<rparr>"

definition svc1_tree :: backend where
  "svc1_tree =
     \<lparr>stored = [(''svc1'', svc ''svc1'')],
      children = [(''svc1'', child ''a'' ''c1''), (''svc1'', child ''b'' ''c2'')],
      faults = [], listing_faults = []\<rparr>"

definition start :: "'w \<Rightarrow> 'w state" where
  "start w = \<lparr>remote = w, heap = (\<lambda>_. None), calls = [], console = []\<rparr>"

text \<open>A script backend that refuses a name already taken; its state is the list of names.\<close>

definition memPutScript :: "string \<Rightarrow> ScriptSkeleton \<Rightarrow> string list \<Rightarrow> (error + unit) \<times> string list" where
  "memPutScript i data names =
     (if name data \<in> set names then (Inl (httpError 409 ''Conflict''), names)
      else (Inr (), names @ [name data]))"

definition myScript :: ScriptSkeleton where
  "myScript = \<lparr>script_id = ''s1'', name = ''myScript'', script = ''x = 1'', script_props = []\<rparr>"

text \<open>The deletion scenario with a transient failure on every request that names \<open>c1\<close>.\<close>

definition c1_fails :: backend where
  "c1_fails = svc1_tree\<lparr>faults := [(''c1'', httpError 500 ''Internal Server Error'')]\<rparr>"

text \<open>The names taken on the script backend when \<open>myScript\<close> is imported a third time.\<close>

definition two_taken :: "string list" where
  "two_taken = [''myScript'', ''myScript - imported (1)'']"

text \<open>
  The import scenario: an empty backend; the caller's store holds, at reference 0, the
  service \<open>svc1\<close> with its two descendents and, at reference 1, a service \<open>svc2\<close> without
  any; the envelope lists both.
\<close>

definition fresh :: backend where
  "fresh = \<lparr>stored = [], children = [], faults = [], listing_faults = []\<rparr>"

definition svc1_full :: FullService where
  "svc1_full = (svc ''svc1'')\<lparr>nextDescendents := Some [child ''a'' ''c1'', child ''b'' ''c2'']\<rparr>"

definition svc2_full :: FullService where
  "svc2_full = (svc ''svc2'')\<lparr>nextDescendents := Some []\<rparr>"

definition holding :: "FullService list \<Rightarrow> 'w \<Rightarrow> 'w state" where
  "holding objs w =
     \<lparr>remote = w, heap = (\<lambda>r. if r < length objs then Some (objs ! r) else None),
      calls = [], console = []\<rparr>"

definition envelope :: ServiceExportInterface where
  "envelope = \<lparr>meta = [], service = Some [(''svc1'', 0), (''svc2'', 1)]\<rparr>"

text \<open>An empty backend on which every request that names \<open>svc1\<close> fails.\<close>

definition svc1_broken :: backend where
  "svc1_broken = fresh\<lparr>faults := [(''svc1'', httpError 500 ''Internal Server Error'')]\<rparr>"

text \<open>The requests that write a descendent.\<close>

fun isDescendentPut :: "call \<Rightarrow> bool" where
  "isDescendentPut (PutServiceNextDescendent s t c d) = True"
| "isDescendentPut _ = False"

text \<open>
  What each \<^verbatim>\<open>putFullService\<close> call of the loop of \<^verbatim>\<open>putFullServices\<close> settles to, entry by
  entry, in the run that starts in \<open>st\<close>: the loop's own bookkeeping, kept for the
  statements about it.
\<close>

fun putFullServices_outcomes ::
  "'w ServiceApi \<Rightarrow> (string \<times> nat) list \<Rightarrow> bool \<Rightarrow> 'w state
    \<Rightarrow> (error + AmServiceSkeleton option) list" where
  "putFullServices_outcomes api [] clean st = []"
| "putFullServices_outcomes api ((id', data) # serviceEntries) clean st =
     (case putFullService api id' (Some data) clean st of
        (Inr result, st1) \<Rightarrow>
          Inr result # putFullServices_outcomes api serviceEntries clean
                         (printMessage (''Imported: '' @ id') ''info'' st1)
      | (Inl error, st1) \<Rightarrow>
          Inl error # putFullServices_outcomes api serviceEntries clean
                        (putFullServices_catch id' error st1))"

text \<open>
  What the inner \<^verbatim>\<open>Promise.all\<close> of the callback of \<^verbatim>\<open>getFullServices\<close> settles to for one
  list item on the backend \<open>w\<close>, where \<open>k\<close> says which rejection settles first.
\<close>

definition fetchItem ::
  "'w ServiceApi \<Rightarrow> 'w \<Rightarrow> nat \<Rightarrow> AmServiceSkeleton
    \<Rightarrow> error + (AmServiceSkeleton \<times> ServiceNextDescendent list)" where
  "fetchItem api w k listItem =
     promiseAll2 k (getService api (service_id listItem) w)
                   (getServiceDescendents api (service_id listItem) w)"

text \<open>
  The two requests of a list item, and what the retrieval of each item of a list settles
  to on the backend \<open>w\<close>, item by item, when the requests issued before the first item
  are \<open>h\<close>.
\<close>

definition itemRequests :: "AmServiceSkeleton \<Rightarrow> call list" where
  "itemRequests listItem =
     [GetService (service_id listItem), GetServiceDescendents (service_id listItem)]"

fun itemOutcomes ::
  "'w ServiceApi \<Rightarrow> 'w \<Rightarrow> call list \<Rightarrow> AmServiceSkeleton list
    \<Rightarrow> (error + (AmServiceSkeleton \<times> ServiceNextDescendent list)) list" where
  "itemOutcomes api w h [] = []"
| "itemOutcomes api w h (x # xs) =
     fetchItem api w (settlesFirst api (h @ itemRequests x)) x #
     itemOutcomes api w (h @ itemRequests x) xs"

text \<open>
  What the retrieval of each item of \<open>serviceList\<close> settles to in the run of
  \<^verbatim>\<open>getFullServices\<close> that starts in \<open>st\<close>.
\<close>

definition getFullServices_outcomes ::
  "'w ServiceApi \<Rightarrow> AmServiceSkeleton list \<Rightarrow> 'w state
    \<Rightarrow> (error + (AmServiceSkeleton \<times> ServiceNextDescendent list)) list" where
  "getFullServices_outcomes api serviceList st =
     itemOutcomes api (remote st) (calls st @ [GetListOfServices]) serviceList"

text \<open>What a retrieved item adds to the result, and what a settled item prints.\<close>

definition exported ::
  "error + (AmServiceSkeleton \<times> ServiceNextDescendent list) \<Rightarrow> FullService list" where
  "exported outcome =
     (case outcome of
        Inl e \<Rightarrow> []
      | Inr (s, ds) \<Rightarrow> [s\<lparr>nextDescendents := Some ds\<rparr>])"

text \<open>The line printed for a list item whose retrieval failed with \<open>e\<close>.\<close>

definition retrievalError :: "AmServiceSkeleton \<Rightarrow> error \<Rightarrow> string \<times> string" where
  "retrievalError listItem e =
     (''Unable to retrieve data for '' @ service_id listItem @ '' with error: '' @
      interpolate (response_message e), ''error'')"

definition printed ::
  "AmServiceSkeleton \<Rightarrow> error + (AmServiceSkeleton \<times> ServiceNextDescendent list)
    \<Rightarrow> (string \<times> string) list" where
  "printed listItem outcome =
     (case outcome of
        Inl e \<Rightarrow> if notAvailableInCloud e then [] else [retrievalError listItem e]
      | Inr v \<Rightarrow> [])"

text \<open>
  An export scenario: four services are listed; \<open>svc2\<close> is not available on this
  backend (the capability gap), every request for \<open>svc3\<close> fails with 500, and of the two
  requests for \<open>svc4\<close> the first meets the capability gap and the second fails with 500.
\<close>

definition capabilityGap :: error where
  "capabilityGap = httpError 403 ''This operation is not available in ForgeRock Identity Cloud.''"

definition four_services :: backend where
  "four_services =
     \<lparr>stored = [(''svc1'', svc ''svc1''), (''svc2'', svc ''svc2''), (''svc3'', svc ''svc3''),
                (''svc4'', svc ''svc4'')],
      children = [(''svc1'', child ''a'' ''c1''), (''svc1'', child ''b'' ''c2'')],
      faults = [(''svc2'', capabilityGap), (''svc3'', httpError 500 ''Internal Server Error''),
                (''svc4'', capabilityGap)],
      listing_faults = [(''svc4'', httpError 500 ''Internal Server Error'')]\<rparr>"

text \<open>An envelope that has no \<^verbatim>\<open>service\<close> key.\<close>

definition envelope_without_services :: ServiceExportInterface where
  "envelope_without_services = \<lparr>meta = [], service = None\<rparr>"

text \<open>
  The state in which the loop of \<^verbatim>\<open>putFullServices\<close> goes on after the entry
  \<open>(id', data)\<close>: the \<^verbatim>\<open>try\<close> block has printed its line, or the \<^verbatim>\<open>catch\<close> block has run.
\<close>

definition putFullServices_next :: "'w ServiceApi \<Rightarrow> string \<Rightarrow> nat \<Rightarrow> bool \<Rightarrow> 'w state \<Rightarrow> 'w state" where
  "putFullServices_next api id' data clean st =
     (case putFullService api id' (Some data) clean st of
        (Inr result, st1) \<Rightarrow> printMessage (''Imported: '' @ id') ''info'' st1
      | (Inl error, st1) \<Rightarrow> putFullServices_catch id' error st1)"

section \<open>Properties\<close>

subsection \<open>Requests, the store and the console\<close>

lemma send_calls: "calls (snd (send c f st)) = calls st @ [c]"
  by (simp add: send_def split: prod.split)

lemma send_console: "console (snd (send c f st)) = console st"
  by (simp add: send_def split: prod.split)

lemma send_heap: "heap (snd (send c f st)) = heap st"
  by (simp add: send_def split: prod.split)

lemma snd_mapAsync_Cons: "snd (mapAsync f (x # xs) st) = snd (mapAsync f xs (snd (f x st)))"
  by (simp split: prod.split)

lemma fst_mapAsync_Cons:
  "fst (mapAsync f (x # xs) st) = fst (f x st) # fst (mapAsync f xs (snd (f x st)))"
  by (simp split: prod.split)

lemma mapAsync_calls:
  assumes "\<And>x st. calls (snd (f x st)) = calls st @ g x"
  shows "calls (snd (mapAsync f xs st)) = calls st @ concat (map g xs)"
proof (induction xs arbitrary: st)
  case Nil
  show ?case by simp
next
  case (Cons x xs)
  show ?case
    by (simp only: snd_mapAsync_Cons Cons.IH assms) simp
qed

lemma deleteNextDescendents_calls:
  "calls (snd (deleteNextDescendents api serviceId ds st)) = calls st @ map (deleteCall serviceId) ds"
  unfolding deleteNextDescendents_def
  by (subst mapAsync_calls [where g = "\<lambda>d. [deleteCall serviceId d]"]) (simp_all add: send_calls)

lemma printMessage_sel [simp]:
  "calls (printMessage m l st) = calls st"
  "remote (printMessage m l st) = remote st"
  "heap (printMessage m l st) = heap st"
  "console (printMessage m l st) = console st @ [(m, l)]"
  by (simp_all add: printMessage_def)

lemma send_remote: "remote (snd (send c f st)) = snd (f (remote st))"
  by (simp add: send_def split: prod.split)

lemma send_fst: "fst (send c f st) = fst (f (remote st))"
  by (simp add: send_def split: prod.split)

lemma fetch_sel [simp]:
  "fst (fetch c f st) = f (remote st)"
  "calls (snd (fetch c f st)) = calls st @ [c]"
  "remote (snd (fetch c f st)) = remote st"
  "heap (snd (fetch c f st)) = heap st"
  "console (snd (fetch c f st)) = console st"
  by (simp_all add: fetch_def)

lemma mapAsync_heap:
  assumes "\<And>x st. heap (snd (f x st)) = heap st"
  shows "heap (snd (mapAsync f xs st)) = heap st"
proof (induction xs arbitrary: st)
  case Nil
  show ?case by simp
next
  case (Cons x xs)
  show ?case by (simp only: snd_mapAsync_Cons Cons.IH assms)
qed

lemma mapAsync_console_same:
  assumes "\<And>x st. console (snd (f x st)) = console st"
  shows "console (snd (mapAsync f xs st)) = console st"
proof (induction xs arbitrary: st)
  case Nil
  show ?case by simp
next
  case (Cons x xs)
  show ?case by (simp only: snd_mapAsync_Cons Cons.IH assms)
qed

lemma deleteNextDescendents_heap:
  "heap (snd (deleteNextDescendents api serviceId ds st)) = heap st"
  unfolding deleteNextDescendents_def by (rule mapAsync_heap) (rule send_heap)

lemma deleteNextDescendents_console:
  "console (snd (deleteNextDescendents api serviceId ds st)) = console st"
  unfolding deleteNextDescendents_def by (rule mapAsync_console_same) (rule send_console)

lemma deleteFullService_heap: "heap (snd (deleteFullService api serviceId st)) = heap st"
  by (simp add: deleteFullService_def split_beta deleteNextDescendents_heap send_heap
           split: sum.split)

lemma deleteFullService_console: "console (snd (deleteFullService api serviceId st)) = console st"
  by (simp add: deleteFullService_def split_beta deleteNextDescendents_console send_console
           split: sum.split)

lemma deleteFullService_calls:
  "\<exists>pre. calls (snd (deleteFullService api serviceId st)) = calls st @ pre
         \<and> list_all (\<lambda>c. \<not> isDescendentPut c) pre"
  by (simp add: deleteFullService_def split_beta deleteNextDescendents_calls send_calls
                list_all_iff deleteCall_def
           split: sum.split)

lemma putFullService_clean_heap: "heap (putFullService_clean api serviceId st) = heap st"
  using deleteFullService_heap [of api serviceId st]
  by (simp add: putFullService_clean_def split_beta split: sum.split)

lemma putFullService_clean_calls:
  "\<exists>pre. calls (putFullService_clean api serviceId st) = calls st @ pre
         \<and> list_all (\<lambda>c. \<not> isDescendentPut c) pre"
  using deleteFullService_calls [of api serviceId st]
  by (simp add: putFullService_clean_def split_beta split: sum.split)

lemma putFullService_prepare_heap:
  "heap (putFullService_prepare api serviceId ref obj clean st) = (heap st)(ref \<mapsto> stripped obj)"
  by (simp add: putFullService_prepare_def Let_def putFullService_clean_heap)

lemma putFullService_prepare_calls:
  "\<exists>pre. calls (putFullService_prepare api serviceId ref obj clean st) = calls st @ pre
         \<and> list_all (\<lambda>c. \<not> isDescendentPut c) pre"
  using putFullService_clean_calls [of api serviceId "st\<lparr>heap := (heap st)(ref \<mapsto> stripped obj)\<rparr>"]
  by (simp add: putFullService_prepare_def Let_def)

lemma putFullService_descendent_heap:
  "heap (snd (putFullService_descendent api serviceId d st)) = heap st"
  by (simp add: putFullService_descendent_def split_beta send_heap split: sum.split)

lemma putFullService_descendent_calls:
  "calls (snd (putFullService_descendent api serviceId d st)) = calls st @ [putCall serviceId d]"
  by (simp add: putFullService_descendent_def split_beta send_calls split: sum.split)

lemma putDescendents_heap:
  "heap (snd (mapAsync (putFullService_descendent api serviceId) ds st)) = heap st"
  by (rule mapAsync_heap) (rule putFullService_descendent_heap)

lemma putDescendents_calls:
  "calls (snd (mapAsync (putFullService_descendent api serviceId) ds st))
     = calls st @ map (putCall serviceId) ds"
  by (subst mapAsync_calls [where g = "\<lambda>d. [putCall serviceId d]"])
     (simp_all add: putFullService_descendent_calls)

lemma putFullService_heap:
  assumes "heap st ref = Some obj"
  shows "heap (snd (putFullService api serviceId (Some ref) clean st)) = (heap st)(ref \<mapsto> stripped obj)"
  using assms
  by (simp add: putFullService_def Let_def split_beta send_heap putFullService_prepare_heap
                putDescendents_heap
           split: sum.split option.split)

lemma putFullService_calls:
  assumes "heap st ref = Some obj"
  shows "calls (snd (putFullService api serviceId (Some ref) clean st)) =
           calls (putFullService_prepare api serviceId ref obj clean st) @
           [PutService serviceId (stripped obj)] @
           (case fst (putService api serviceId (stripped obj)
                        (remote (putFullService_prepare api serviceId ref obj clean st))) of
              Inl e \<Rightarrow> []
            | Inr created \<Rightarrow>
                map (putCall serviceId) (case nextDescendents obj of None \<Rightarrow> [] | Some ds \<Rightarrow> ds))"
  using assms
  by (simp add: putFullService_def Let_def split_beta send_calls send_fst send_remote
                putDescendents_calls
           split: sum.split option.split)

lemma putFullService_fst:
  assumes "heap st ref = Some obj"
  shows "fst (putFullService api serviceId (Some ref) clean st) =
           (case fst (putService api serviceId (stripped obj)
                        (remote (putFullService_prepare api serviceId ref obj clean st))) of
              Inl e \<Rightarrow> Inl e
            | Inr created \<Rightarrow>
                (case nextDescendents obj of
                   None \<Rightarrow> Inl (TypeError ''Cannot read properties of undefined (reading 'length')'')
                 | Some ds \<Rightarrow> if ds = [] then Inr (Some created) else Inr None))"
  using assms
  by (simp add: putFullService_def Let_def split_beta send_fst
           split: sum.split option.split)

lemma importService_eq:
  assumes "service importData = Some entries"
  shows "importService api serviceId importData clean st =
           putFullService api serviceId (map_of entries serviceId) clean st"
  using assms by (simp add: importService_def)

subsection \<open>Deleting a full tree\<close>

lemma rejections_set: "e \<in> set (rejections rs) \<longleftrightarrow> Inl e \<in> set rs"
  by (induction rs rule: rejections.induct) auto

lemma promiseAll_rejects: "promiseAll k rs = Inl e \<Longrightarrow> Inl e \<in> set rs"
proof -
  assume a: "promiseAll k rs = Inl e"
  then obtain x xs where r: "rejections rs = x # xs"
    by (cases "rejections rs") (simp_all add: promiseAll_def)
  have "k mod length (x # xs) < length (x # xs)"
    by simp
  then have "(x # xs) ! (k mod length (x # xs)) \<in> set (x # xs)"
    by (rule nth_mem)
  moreover have "e = (x # xs) ! (k mod length (x # xs))"
    using a r by (simp add: promiseAll_def)
  ultimately have "e \<in> set (rejections rs)"
    using r by simp
  then show ?thesis
    by (simp add: rejections_set)
qed

lemma promiseAll_rejects_iff: "(\<exists>e. promiseAll k rs = Inl e) \<longleftrightarrow> (\<exists>e. Inl e \<in> set rs)"
proof
  assume "\<exists>e. promiseAll k rs = Inl e"
  then show "\<exists>e. Inl e \<in> set rs"
    using promiseAll_rejects by blast
next
  assume "\<exists>e. Inl e \<in> set rs"
  then obtain e where "e \<in> set (rejections rs)"
    using rejections_set by blast
  then obtain x xs where "rejections rs = x # xs"
    by (cases "rejections rs") simp_all
  then show "\<exists>e. promiseAll k rs = Inl e"
    by (simp add: promiseAll_def)
qed

text \<open>
  C1 (as amended). Once the descendents are listed, \<^verbatim>\<open>deleteFullService\<close> issues one delete
  request for every listed descendent, whatever the outcome of the others. The delete of
  the parent is issued after them exactly when every descendent delete succeeded; when
  one of them fails, the operation rejects with the failure that settles first and the
  parent delete is not issued. This holds whichever failure settles first.
\<close>

theorem deleteFullService_trace:
  assumes "getServiceDescendents api serviceId (remote st) = Inr ds"
  shows "calls (snd (deleteFullService api serviceId st)) =
           calls st @ [GetServiceDescendents serviceId] @ map (deleteCall serviceId) ds @
           (case promiseAll
                   (settlesFirst api
                      (calls st @ [GetServiceDescendents serviceId] @ map (deleteCall serviceId) ds))
                   (fst (deleteNextDescendents api serviceId ds
                           (st\<lparr>calls := calls st @ [GetServiceDescendents serviceId]\<rparr>))) of
              Inl e \<Rightarrow> []
            | Inr _ \<Rightarrow> [DeleteService serviceId])
         \<and> (\<forall>e. promiseAll
                   (settlesFirst api
                      (calls st @ [GetServiceDescendents serviceId] @ map (deleteCall serviceId) ds))
                   (fst (deleteNextDescendents api serviceId ds
                           (st\<lparr>calls := calls st @ [GetServiceDescendents serviceId]\<rparr>))) = Inl e
                \<longrightarrow> fst (deleteFullService api serviceId st) = Inl e)
         \<and> ((\<exists>e. promiseAll
                   (settlesFirst api
                      (calls st @ [GetServiceDescendents serviceId] @ map (deleteCall serviceId) ds))
                   (fst (deleteNextDescendents api serviceId ds
                           (st\<lparr>calls := calls st @ [GetServiceDescendents serviceId]\<rparr>))) = Inl e)
              \<longleftrightarrow>
              (\<exists>e. Inl e \<in> set (fst (deleteNextDescendents api serviceId ds
                                       (st\<lparr>calls := calls st @ [GetServiceDescendents serviceId]\<rparr>)))))"
proof -
  let ?st1 = "st\<lparr>calls := calls st @ [GetServiceDescendents serviceId]\<rparr>"
  obtain rs st2 where d: "deleteNextDescendents api serviceId ds ?st1 = (rs, st2)"
    by (cases "deleteNextDescendents api serviceId ds ?st1")
  have c2: "calls st2 = calls st @ [GetServiceDescendents serviceId] @ map (deleteCall serviceId) ds"
    using deleteNextDescendents_calls [of api serviceId ds ?st1] d by simp
  show ?thesis
    using assms d c2
    by (simp add: deleteFullService_def fetch_def send_calls promiseAll_rejects_iff
             split: sum.split)
qed

text \<open>
  The deletion scenario, \<open>svc1\<close> with children \<open>c1\<close> and \<open>c2\<close> where the delete of \<open>c1\<close>
  fails: both child deletes are issued, the call rejects, no parent delete follows.
\<close>

theorem deleteFullService_trace_witness:
  "calls (snd (deleteFullService memApi ''svc1'' (start c1_fails))) =
     [GetServiceDescendents ''svc1'',
      DeleteServiceNextDescendent ''svc1'' ''a'' ''c1'',
      DeleteServiceNextDescendent ''svc1'' ''b'' ''c2'']
   \<and> fst (deleteFullService memApi ''svc1'' (start c1_fails)) =
       Inl (httpError 500 ''Internal Server Error'')"
proof -
  have h: "getServiceDescendents memApi ''svc1'' (remote (start c1_fails)) =
             Inr [child ''a'' ''c1'', child ''b'' ''c2'']"
    by code_simp
  have p: "promiseAll k (fst (deleteNextDescendents memApi ''svc1'' [child ''a'' ''c1'', child ''b'' ''c2'']
             ((start c1_fails)\<lparr>calls := calls (start c1_fails) @ [GetServiceDescendents ''svc1'']\<rparr>)))
           = Inl (httpError 500 ''Internal Server Error'')" for k
  proof -
    have "fst (deleteNextDescendents memApi ''svc1'' [child ''a'' ''c1'', child ''b'' ''c2'']
             ((start c1_fails)\<lparr>calls := calls (start c1_fails) @ [GetServiceDescendents ''svc1'']\<rparr>))
          = [Inl (httpError 500 ''Internal Server Error''), Inr ()]"
      by code_simp
    then show ?thesis
      by (simp add: promiseAll_def)
  qed
  have c: "calls (start c1_fails) = []" by (simp add: start_def)
  show ?thesis
    using deleteFullService_trace [OF h] p c
    by (simp add: deleteCall_def child_def)
qed

text \<open>
  C1 as stated fails on that scenario: \<open>c2\<close> is deleted, but the parent delete is never
  attempted; the service and the child \<open>c1\<close> remain on the backend.
\<close>

theorem deleteFullService_counterexample:
  "DeleteServiceNextDescendent ''svc1'' ''b'' ''c2''
     \<in> set (calls (snd (deleteFullService memApi ''svc1'' (start c1_fails))))
   \<and> DeleteService ''svc1'' \<notin> set (calls (snd (deleteFullService memApi ''svc1'' (start c1_fails))))
   \<and> map fst (stored (remote (snd (deleteFullService memApi ''svc1'' (start c1_fails))))) = [''svc1'']
   \<and> map (descendent_id \<circ> snd) (children (remote (snd (deleteFullService memApi ''svc1'' (start c1_fails))))) = [''c1'']"
  by code_simp

subsection \<open>Name conflicts on script import\<close>

lemma putScripts_upt:
  "PutScript i d # map (\<lambda>k. PutScript i (d\<lparr>name := (p ^^ k) (p (name d))\<rparr>)) [0..<Suc n]
   = map (\<lambda>k. PutScript i (d\<lparr>name := (p ^^ k) (name d)\<rparr>)) [0..<Suc (Suc n)]"
proof -
  have "[0..<Suc (Suc n)] = 0 # map Suc [0..<Suc n]"
    by (metis map_Suc_upt upt_conv_Cons zero_less_Suc)
  then have "map (\<lambda>k. PutScript i (d\<lparr>name := (p ^^ k) (name d)\<rparr>)) [0..<Suc (Suc n)]
        = PutScript i (d\<lparr>name := (p ^^ 0) (name d)\<rparr>)
          # map (\<lambda>k. PutScript i (d\<lparr>name := (p ^^ Suc k) (name d)\<rparr>)) [0..<Suc n]"
    by (simp only: list.map map_map comp_def)
  then show ?thesis
    by (simp add: funpow_swap1 del: upt_Suc)
qed

text \<open>
  C2 (as amended). A put that fails with status 409 makes \<^verbatim>\<open>createOrUpdateScript\<close> apply the
  collision policy to the current name and call itself with the renamed script; every
  further conflict does the same again. On a backend that answers \<open>n\<close> successive puts
  with a conflict and accepts the next, the call returns after \<open>n + 1\<close> puts, reports
  no error and reports the name renamed \<open>n\<close> times: the number of retries is the number
  of conflicts, not one.
\<close>

theorem createOrUpdateScript_retries:
  assumes "conflictsThenAccepts putScript policy id' data (remote st) n"
  shows "\<exists>data' st'.
           createOrUpdateScript putScript policy id' data st =
             Some (\<lparr>failed = False, saved_name = (policy ^^ n) (name data)\<rparr>, data', st')
           \<and> name data' = (policy ^^ n) (name data)
           \<and> calls st' = calls st @
                 map (\<lambda>k. PutScript id' (data\<lparr>name := (policy ^^ k) (name data)\<rparr>)) [0..<Suc n]"
  using assms
proof (induction n arbitrary: data st)
  case 0
  obtain r w where p: "putScript id' data (remote st) = (r, w)"
    by (cases "putScript id' data (remote st)")
  with 0 obtain v where r: "r = Inr v" by (cases r) simp_all
  show ?case
    by (subst createOrUpdateScript.simps) (simp add: send_def p r)
next
  case (Suc n)
  obtain r w where p: "putScript id' data (remote st) = (r, w)"
    by (cases "putScript id' data (remote st)")
  with Suc.prems obtain e where r: "r = Inl e" and s: "response_status e = Some 409"
    and c: "conflictsThenAccepts putScript policy id' (data\<lparr>name := policy (name data)\<rparr>) w n"
    by (cases r) simp_all
  let ?d = "data\<lparr>name := policy (name data)\<rparr>"
  let ?st3 = "printMessage (''Trying to save script as '' @ policy (name data)) ''warn''
                (printMessage
                   (''createOrUpdateScript WARNING: script with name '' @ name data @
                    '' already exists, using renaming policy... <name> => <name - imported (n)>'')
                   ''warn'' (st\<lparr>remote := w, calls := calls st @ [PutScript id' data]\<rparr>))"
  have "conflictsThenAccepts putScript policy id' ?d (remote ?st3) n"
    using c by simp
  from Suc.IH [OF this] obtain data' st' where
    ih: "createOrUpdateScript putScript policy id' ?d ?st3 =
           Some (\<lparr>failed = False, saved_name = (policy ^^ n) (name ?d)\<rparr>, data', st')"
      "name data' = (policy ^^ n) (name ?d)"
      "calls st' = calls ?st3 @ map (\<lambda>k. PutScript id' (?d\<lparr>name := (policy ^^ k) (name ?d)\<rparr>)) [0..<Suc n]"
    by blast
  have u: "createOrUpdateScript putScript policy id' data st =
        Some (\<lparr>failed = False, saved_name = name data'\<rparr>, data', st')"
    by (subst createOrUpdateScript.simps) (simp add: send_def p r s ih(1) [simplified] Let_def)
  have cl: "calls st' = calls st @
       map (\<lambda>k. PutScript id' (data\<lparr>name := (policy ^^ k) (name data)\<rparr>)) [0..<Suc (Suc n)]"
    using ih(3) putScripts_upt [of id' data policy n] by (simp del: upt_Suc)
  show ?case
    using u ih(2) cl by (simp add: funpow_swap1 del: upt_Suc)
qed


text \<open>
  Two names taken: two conflicts, three puts, success as \<^verbatim>\<open>myScript - imported (2)\<close>.
\<close>

theorem createOrUpdateScript_retries_witness:
  "conflictsThenAccepts memPutScript applyNameCollisionPolicy ''s1'' myScript
     (remote (start two_taken)) 2
   \<and> (\<exists>data' st'.
         createOrUpdateScript memPutScript applyNameCollisionPolicy ''s1'' myScript (start two_taken) =
           Some (\<lparr>failed = False, saved_name = ''myScript - imported (2)''\<rparr>, data', st')
         \<and> name data' = ''myScript - imported (2)''
         \<and> calls st' =
             [PutScript ''s1'' myScript,
              PutScript ''s1'' (myScript\<lparr>name := ''myScript - imported (1)''\<rparr>),
              PutScript ''s1'' (myScript\<lparr>name := ''myScript - imported (2)''\<rparr>)])"
proof -
  have h: "conflictsThenAccepts memPutScript applyNameCollisionPolicy ''s1'' myScript
             (remote (start two_taken)) 2"
    by code_simp
  have n0: "name myScript = ''myScript''"
    by (simp add: myScript_def)
  have n1: "applyNameCollisionPolicy ''myScript'' = ''myScript - imported (1)''"
    by code_simp
  have n2: "applyNameCollisionPolicy ''myScript - imported (1)'' = ''myScript - imported (2)''"
    by code_simp
  have c: "calls (start two_taken) = []"
    by (simp add: start_def)
  have u: "[0..<Suc 2] = [0, Suc 0, Suc (Suc 0)]"
    by (simp add: upt_rec numeral_2_eq_2)
  have p: "applyNameCollisionPolicy ^^ 2 = (\<lambda>x. applyNameCollisionPolicy (applyNameCollisionPolicy x))"
    by (simp add: numeral_2_eq_2 fun_eq_iff)
  have m: "myScript\<lparr>name := ''myScript''\<rparr> = myScript"
    by (simp add: myScript_def)
  show ?thesis
    using createOrUpdateScript_retries [OF h] h
    unfolding u p n0 c
    by (simp add: n1 n2 m)
qed

text \<open>
  C2 as stated fails on that input: the retry with the resolved name conflicts as well,
  and the call is no hard failure; it goes on to a second retry and reports success.
\<close>

theorem createOrUpdateScript_counterexample:
  "createOrUpdateScript memPutScript applyNameCollisionPolicy ''s1'' myScript (start two_taken) \<noteq> None
   \<and> failed (fst (the (createOrUpdateScript memPutScript applyNameCollisionPolicy ''s1'' myScript
                          (start two_taken)))) = False
   \<and> calls (snd (snd (the (createOrUpdateScript memPutScript applyNameCollisionPolicy ''s1'' myScript
                          (start two_taken))))) =
       [PutScript ''s1'' myScript,
        PutScript ''s1'' (myScript\<lparr>name := ''myScript - imported (1)''\<rparr>),
        PutScript ''s1'' (myScript\<lparr>name := ''myScript - imported (2)''\<rparr>)]"
  by code_simp

subsection \<open>Importing a single service\<close>

text \<open>
  C3 (as amended). The import writes the caller's object: after \<^verbatim>\<open>importService\<close> the entry
  \<^verbatim>\<open>importData.service[serviceId]\<close> has lost \<^verbatim>\<open>nextDescendents\<close>, \<^verbatim>\<open>_rev\<close> and \<^verbatim>\<open>enabled\<close>;
  its other fields and every other object of the store are as before.
\<close>

theorem importService_mutates_entry:
  assumes "service importData = Some entries"
    and "map_of entries serviceId = Some ref"
    and "heap st ref = Some obj"
  shows "heap (snd (importService api serviceId importData clean st)) ref =
           Some (obj\<lparr>nextDescendents := None, service_rev := None, enabled := None\<rparr>)
         \<and> (\<forall>r. r \<noteq> ref \<longrightarrow>
                heap (snd (importService api serviceId importData clean st)) r = heap st r)"
  using assms putFullService_heap [of st ref obj api serviceId clean]
  by (simp add: importService_eq stripped_def)

text \<open>
  The envelope of the import scenario: the entry of \<open>svc1\<close> is stripped, the entry of
  \<open>svc2\<close> is untouched.
\<close>

theorem importService_mutates_entry_witness:
  "heap (snd (importService memApi ''svc1'' envelope False (holding [svc1_full, svc2_full] fresh))) 0 =
     Some (svc1_full\<lparr>nextDescendents := None, service_rev := None, enabled := None\<rparr>)
   \<and> heap (snd (importService memApi ''svc1'' envelope False (holding [svc1_full, svc2_full] fresh))) 1 =
     Some svc2_full"
proof -
  have e: "service envelope = Some [(''svc1'', 0), (''svc2'', 1)]"
    by (simp add: envelope_def)
  have m: "map_of [(''svc1'', 0::nat), (''svc2'', 1)] ''svc1'' = Some 0"
    by simp
  have h: "heap (holding [svc1_full, svc2_full] fresh) 0 = Some svc1_full"
    by (simp add: holding_def)
  have h1: "heap (holding [svc1_full, svc2_full] fresh) 1 = Some svc2_full"
    by (simp add: holding_def)
  show ?thesis
    using importService_mutates_entry [OF e m h, of memApi False] h1 by simp
qed

text \<open>
  C3 as stated fails on that envelope: after the call the caller's entry is no longer the
  object that was passed in, its \<^verbatim>\<open>nextDescendents\<close> are gone.
\<close>

theorem importService_counterexample:
  "heap (holding [svc1_full, svc2_full] fresh) 0 = Some svc1_full
   \<and> heap (snd (importService memApi ''svc1'' envelope False (holding [svc1_full, svc2_full] fresh))) 0
       \<noteq> Some svc1_full
   \<and> map_option nextDescendents
         (heap (snd (importService memApi ''svc1'' envelope False (holding [svc1_full, svc2_full] fresh))) 0)
       = Some None"
  by code_simp

text \<open>
  C6. With \<open>clean\<close> set, a failure of the deletion that is a 404 with the message
  \<^verbatim>\<open>Not Found\<close> prints nothing, any other failure prints one line, a success prints
  nothing; in every case the \<^verbatim>\<open>putService\<close> request for the parent is issued next.
\<close>

theorem putFullService_clean_then_put:
  fixes api :: "'w ServiceApi" and st :: "'w state"
  defines "warning e serviceId \<equiv>
             (''Error deleting service '' @ quoted serviceId @ '' before import: '' @
              interpolate (response_message e), ''error'')"
  assumes "heap st ref = Some obj"
  shows "(case fst (deleteFullService api serviceId (st\<lparr>heap := (heap st)(ref \<mapsto> stripped obj)\<rparr>)) of
            Inr u \<Rightarrow> console (putFullService_prepare api serviceId ref obj True st) = console st
          | Inl e \<Rightarrow> console (putFullService_prepare api serviceId ref obj True st) =
                       console st @ (if notFound e then [] else [warning e serviceId]))
         \<and> (\<exists>post. calls (snd (putFullService api serviceId (Some ref) True st)) =
                     calls (putFullService_prepare api serviceId ref obj True st) @
                     [PutService serviceId (stripped obj)] @ post)"
proof -
  let ?st0 = "st\<lparr>heap := (heap st)(ref \<mapsto> stripped obj)\<rparr>"
  have c: "console (snd (deleteFullService api serviceId ?st0)) = console st"
    by (simp add: deleteFullService_console)
  have 1: "(case fst (deleteFullService api serviceId ?st0) of
            Inr u \<Rightarrow> console (putFullService_prepare api serviceId ref obj True st) = console st
          | Inl e \<Rightarrow> console (putFullService_prepare api serviceId ref obj True st) =
                       console st @ (if notFound e then [] else [warning e serviceId]))"
    using c
    by (simp add: putFullService_prepare_def putFullService_clean_def Let_def split_beta warning_def
             split: sum.split)
  have 2: "\<exists>post. calls (snd (putFullService api serviceId (Some ref) True st)) =
                     calls (putFullService_prepare api serviceId ref obj True st) @
                     [PutService serviceId (stripped obj)] @ post"
    using putFullService_calls [OF assms(2), of api serviceId True] by blast
  from 1 2 show ?thesis by blast
qed

text \<open>
  A clean import on an empty backend (the deletion fails with 404: nothing is printed) and
  on a backend where the deletion of \<open>c1\<close> fails with 500 (one line is printed); the
  parent is put in both runs.
\<close>

theorem putFullService_clean_then_put_witness:
  "console (putFullService_prepare memApi ''svc1'' 0 svc1_full True
              (holding [svc1_full, svc2_full] fresh)) = []
   \<and> PutService ''svc1'' (stripped svc1_full)
       \<in> set (calls (snd (putFullService memApi ''svc1'' (Some 0) True
                              (holding [svc1_full, svc2_full] fresh))))
   \<and> console (putFullService_prepare memApi ''svc1'' 0 svc1_full True
                (holding [svc1_full, svc2_full] c1_fails)) =
       [(''Error deleting service 'svc1' before import: Internal Server Error'', ''error'')]
   \<and> PutService ''svc1'' (stripped svc1_full)
       \<in> set (calls (snd (putFullService memApi ''svc1'' (Some 0) True
                              (holding [svc1_full, svc2_full] c1_fails))))"
proof -
  have h: "heap (holding [svc1_full, svc2_full] w) 0 = Some svc1_full" for w :: backend
    by (simp add: holding_def)
  have c: "console (holding [svc1_full, svc2_full] w) = []" for w :: backend
    by (simp add: holding_def)
  have d1: "fst (deleteFullService memApi ''svc1''
                   ((holding [svc1_full, svc2_full] fresh)
                      \<lparr>heap := (heap (holding [svc1_full, svc2_full] fresh))(0 \<mapsto> stripped svc1_full)\<rparr>))
            = Inl (httpError 404 ''Not Found'')"
    by code_simp
  have n1: "notFound (httpError 404 ''Not Found'')"
    by code_simp
  have d2: "fst (deleteFullService memApi ''svc1''
                   ((holding [svc1_full, svc2_full] c1_fails)
                      \<lparr>heap := (heap (holding [svc1_full, svc2_full] c1_fails))(0 \<mapsto> stripped svc1_full)\<rparr>))
            = Inl (httpError 500 ''Internal Server Error'')"
    by code_simp
  have n2: "\<not> notFound (httpError 500 ''Internal Server Error'')"
    by code_simp
  have m: "interpolate (response_message (httpError 500 ''Internal Server Error'')) =
             ''Internal Server Error''"
    by (simp add: httpError_def)
  have q: "''Error deleting service '' @ quoted ''svc1'' @ '' before import: '' @ ''Internal Server Error''
           = ''Error deleting service 'svc1' before import: Internal Server Error''"
    by (simp add: quoted_def)
  have a: "console (putFullService_prepare memApi ''svc1'' 0 svc1_full True
              (holding [svc1_full, svc2_full] fresh)) = []"
    and b: "PutService ''svc1'' (stripped svc1_full)
       \<in> set (calls (snd (putFullService memApi ''svc1'' (Some 0) True
                              (holding [svc1_full, svc2_full] fresh))))"
    using putFullService_clean_then_put [OF h [of fresh], where api = memApi and serviceId = "''svc1''"] d1 n1 c
    by auto
  have a': "console (putFullService_prepare memApi ''svc1'' 0 svc1_full True
                (holding [svc1_full, svc2_full] c1_fails)) =
       [(''Error deleting service 'svc1' before import: Internal Server Error'', ''error'')]"
    and b': "PutService ''svc1'' (stripped svc1_full)
       \<in> set (calls (snd (putFullService memApi ''svc1'' (Some 0) True
                              (holding [svc1_full, svc2_full] c1_fails))))"
    using putFullService_clean_then_put [OF h [of c1_fails], where api = memApi and serviceId = "''svc1''"] d2 n2 c
    by (auto simp add: m quoted_def)
  from a b a' b' show ?thesis by blast
qed

text \<open>
  C7. The requests of \<^verbatim>\<open>putFullService\<close> are: the requests of the clean block, none of
  which writes a descendent; then the put of the parent; then, only when that put
  succeeded, the puts of the descendents. When the put of the parent fails, the call
  rejects with its error and no descendent is written.
\<close>

theorem putFullService_parent_before_children:
  assumes "heap st ref = Some obj"
  shows "\<exists>pre. list_all (\<lambda>c. \<not> isDescendentPut c) pre
           \<and> calls (snd (putFullService api serviceId (Some ref) clean st)) =
               calls st @ pre @ [PutService serviceId (stripped obj)] @
               (case fst (putService api serviceId (stripped obj)
                            (remote (putFullService_prepare api serviceId ref obj clean st))) of
                  Inl e \<Rightarrow> []
                | Inr created \<Rightarrow>
                    map (putCall serviceId)
                        (case nextDescendents obj of None \<Rightarrow> [] | Some ds \<Rightarrow> ds))
           \<and> (\<forall>e. fst (putService api serviceId (stripped obj)
                            (remote (putFullService_prepare api serviceId ref obj clean st))) = Inl e
                  \<longrightarrow> fst (putFullService api serviceId (Some ref) clean st) = Inl e)"
proof -
  obtain pre where p: "calls (putFullService_prepare api serviceId ref obj clean st) = calls st @ pre"
    and n: "list_all (\<lambda>c. \<not> isDescendentPut c) pre"
    using putFullService_prepare_calls [of api serviceId ref obj clean st] by blast
  have "calls (snd (putFullService api serviceId (Some ref) clean st)) =
               calls st @ pre @ [PutService serviceId (stripped obj)] @
               (case fst (putService api serviceId (stripped obj)
                            (remote (putFullService_prepare api serviceId ref obj clean st))) of
                  Inl e \<Rightarrow> []
                | Inr created \<Rightarrow>
                    map (putCall serviceId)
                        (case nextDescendents obj of None \<Rightarrow> [] | Some ds \<Rightarrow> ds))"
    using putFullService_calls [OF assms, of api serviceId clean] p by simp
  moreover have "\<forall>e. fst (putService api serviceId (stripped obj)
                            (remote (putFullService_prepare api serviceId ref obj clean st))) = Inl e
                  \<longrightarrow> fst (putFullService api serviceId (Some ref) clean st) = Inl e"
    using putFullService_fst [OF assms, of api serviceId clean] by simp
  ultimately show ?thesis using n by blast
qed

text \<open>
  The import of \<open>svc1\<close> with its two descendents: the parent is put before \<open>c1\<close> and
  \<open>c2\<close>; on a backend that refuses the parent, the put of the parent is the last request.
\<close>

theorem putFullService_parent_before_children_witness:
  "(\<exists>pre. list_all (\<lambda>c. \<not> isDescendentPut c) pre
      \<and> calls (snd (putFullService memApi ''svc1'' (Some 0) True
                        (holding [svc1_full, svc2_full] fresh))) =
          pre @ [PutService ''svc1'' (stripped svc1_full),
                 PutServiceNextDescendent ''svc1'' ''a'' ''c1'' (child ''a'' ''c1''),
                 PutServiceNextDescendent ''svc1'' ''b'' ''c2'' (child ''b'' ''c2'')])
   \<and> (\<exists>pre. list_all (\<lambda>c. \<not> isDescendentPut c) pre
      \<and> calls (snd (putFullService memApi ''svc1'' (Some 0) True
                        (holding [svc1_full, svc2_full] svc1_broken))) =
          pre @ [PutService ''svc1'' (stripped svc1_full)])
   \<and> fst (putFullService memApi ''svc1'' (Some 0) True (holding [svc1_full, svc2_full] svc1_broken))
       = Inl (httpError 500 ''Internal Server Error'')"
proof -
  have h: "heap (holding [svc1_full, svc2_full] w) 0 = Some svc1_full" for w :: backend
    by (simp add: holding_def)
  have c: "calls (holding [svc1_full, svc2_full] w) = []" for w :: backend
    by (simp add: holding_def)
  have n: "nextDescendents svc1_full = Some [child ''a'' ''c1'', child ''b'' ''c2'']"
    by (simp add: svc1_full_def)
  have p1: "fst (putService memApi ''svc1'' (stripped svc1_full)
                  (remote (putFullService_prepare memApi ''svc1'' 0 svc1_full True
                             (holding [svc1_full, svc2_full] fresh))))
            = Inr ((stripped svc1_full)\<lparr>service_rev := Some ''1''\<rparr>)"
    by code_simp
  have p2: "fst (putService memApi ''svc1'' (stripped svc1_full)
                  (remote (putFullService_prepare memApi ''svc1'' 0 svc1_full True
                             (holding [svc1_full, svc2_full] svc1_broken))))
            = Inl (httpError 500 ''Internal Server Error'')"
    by code_simp
  have a: "\<exists>pre. list_all (\<lambda>c. \<not> isDescendentPut c) pre
      \<and> calls (snd (putFullService memApi ''svc1'' (Some 0) True
                        (holding [svc1_full, svc2_full] fresh))) =
          pre @ [PutService ''svc1'' (stripped svc1_full),
                 PutServiceNextDescendent ''svc1'' ''a'' ''c1'' (child ''a'' ''c1''),
                 PutServiceNextDescendent ''svc1'' ''b'' ''c2'' (child ''b'' ''c2'')]"
    using putFullService_parent_before_children
            [OF h [of fresh], where api = memApi and serviceId = "''svc1''" and clean = True]
    by (simp add: p1 n c putCall_def child_def)
  have b: "(\<exists>pre. list_all (\<lambda>c. \<not> isDescendentPut c) pre
      \<and> calls (snd (putFullService memApi ''svc1'' (Some 0) True
                        (holding [svc1_full, svc2_full] svc1_broken))) =
          pre @ [PutService ''svc1'' (stripped svc1_full)])
     \<and> fst (putFullService memApi ''svc1'' (Some 0) True (holding [svc1_full, svc2_full] svc1_broken))
       = Inl (httpError 500 ''Internal Server Error'')"
    using putFullService_parent_before_children
            [OF h [of svc1_broken], where api = memApi and serviceId = "''svc1''" and clean = True]
    by (auto simp add: p2 c)
  from a b show ?thesis by blast
qed

text \<open>
  C9. A successful \<^verbatim>\<open>putFullService\<close> of a service with at least one descendent
  resolves to \<^verbatim>\<open>undefined\<close>; with no descendent it resolves to what \<^verbatim>\<open>putService\<close>
  resolved to. \<^verbatim>\<open>importService\<close> resolves to the same value.
\<close>

theorem putFullService_resolves_undefined:
  assumes "heap st ref = Some obj"
    and "nextDescendents obj = Some ds"
    and "fst (putFullService api serviceId (Some ref) clean st) = Inr result"
  shows "(ds \<noteq> [] \<longrightarrow> result = None)
         \<and> (ds = [] \<longrightarrow>
                fst (putService api serviceId (stripped obj)
                       (remote (putFullService_prepare api serviceId ref obj clean st)))
                  = Inr (the result) \<and> result \<noteq> None)
         \<and> (\<forall>importData entries.
                service importData = Some entries \<and> map_of entries serviceId = Some ref
                \<longrightarrow> fst (importService api serviceId importData clean st) = Inr result)"
  using assms putFullService_fst [OF assms(1), of api serviceId clean]
  by (auto simp add: importService_eq split: sum.splits if_splits)

text \<open>
  The import of \<open>svc1\<close> (two descendents) resolves to \<^verbatim>\<open>undefined\<close>, the import of
  \<open>svc2\<close> (none) to the created service.
\<close>

theorem putFullService_resolves_undefined_witness:
  "fst (putFullService memApi ''svc1'' (Some 0) False (holding [svc1_full, svc2_full] fresh)) = Inr None
   \<and> fst (importService memApi ''svc1'' envelope False (holding [svc1_full, svc2_full] fresh)) = Inr None
   \<and> fst (putFullService memApi ''svc2'' (Some 1) False (holding [svc1_full, svc2_full] fresh))
       = Inr (Some ((stripped svc2_full)\<lparr>service_rev := Some ''1''\<rparr>))
   \<and> fst (putService memApi ''svc2'' (stripped svc2_full)
            (remote (putFullService_prepare memApi ''svc2'' 1 svc2_full False
                       (holding [svc1_full, svc2_full] fresh))))
       = Inr ((stripped svc2_full)\<lparr>service_rev := Some ''1''\<rparr>)"
proof -
  have h1: "heap (holding [svc1_full, svc2_full] fresh) 0 = Some svc1_full"
    by (simp add: holding_def)
  have n1: "nextDescendents svc1_full = Some [child ''a'' ''c1'', child ''b'' ''c2'']"
    by (simp add: svc1_full_def)
  have r1: "fst (putFullService memApi ''svc1'' (Some 0) False (holding [svc1_full, svc2_full] fresh))
            = Inr None"
    by code_simp
  have e: "service envelope = Some [(''svc1'', 0), (''svc2'', 1)]
           \<and> map_of [(''svc1'', 0::nat), (''svc2'', 1)] ''svc1'' = Some 0"
    by (simp add: envelope_def)
  have h2: "heap (holding [svc1_full, svc2_full] fresh) 1 = Some svc2_full"
    by (simp add: holding_def)
  have n2: "nextDescendents svc2_full = Some []"
    by (simp add: svc2_full_def)
  have r2: "fst (putFullService memApi ''svc2'' (Some 1) False (holding [svc1_full, svc2_full] fresh))
            = Inr (Some ((stripped svc2_full)\<lparr>service_rev := Some ''1''\<rparr>))"
    by code_simp
  show ?thesis
    using putFullService_resolves_undefined [OF h1 n1 r1] putFullService_resolves_undefined [OF h2 n2 r2]
      r1 r2 e
    by auto
qed

text \<open>
  C10. When the object has no \<^verbatim>\<open>nextDescendents\<close> and the put of the parent succeeds,
  \<^verbatim>\<open>putFullService\<close> rejects with a \<open>TypeError\<close>; the put of the parent is its last
  request and the backend is the one that put left behind.
\<close>

theorem putFullService_missing_nextDescendents:
  assumes "heap st ref = Some obj"
    and "nextDescendents obj = None"
    and "putService api serviceId (stripped obj)
           (remote (putFullService_prepare api serviceId ref obj clean st)) = (Inr created, w)"
  shows "fst (putFullService api serviceId (Some ref) clean st) =
           Inl (TypeError ''Cannot read properties of undefined (reading 'length')'')
         \<and> remote (snd (putFullService api serviceId (Some ref) clean st)) = w
         \<and> calls (snd (putFullService api serviceId (Some ref) clean st)) =
             calls (putFullService_prepare api serviceId ref obj clean st) @
             [PutService serviceId (stripped obj)]"
  using assms
  by (simp add: putFullService_def Let_def send_def)

text \<open>
  A service object without \<^verbatim>\<open>nextDescendents\<close> on an empty backend: the call rejects and
  \<open>svc1\<close> is stored.
\<close>

theorem putFullService_missing_nextDescendents_witness:
  "fst (putFullService memApi ''svc1'' (Some 0) False (holding [svc ''svc1''] fresh)) =
     Inl (TypeError ''Cannot read properties of undefined (reading 'length')'')
   \<and> map fst (stored (remote (snd (putFullService memApi ''svc1'' (Some 0) False
                                      (holding [svc ''svc1''] fresh))))) = [''svc1'']
   \<and> calls (snd (putFullService memApi ''svc1'' (Some 0) False (holding [svc ''svc1''] fresh))) =
       [PutService ''svc1'' (stripped (svc ''svc1''))]"
proof -
  have h: "heap (holding [svc ''svc1''] fresh) 0 = Some (svc ''svc1'')"
    by (simp add: holding_def)
  have n: "nextDescendents (svc ''svc1'') = None"
    by (simp add: svc_def)
  have p: "putService memApi ''svc1'' (stripped (svc ''svc1''))
             (remote (putFullService_prepare memApi ''svc1'' 0 (svc ''svc1'') False
                        (holding [svc ''svc1''] fresh)))
           = (Inr ((stripped (svc ''svc1''))\<lparr>service_rev := Some ''1''\<rparr>),
              fresh\<lparr>stored := [(''svc1'', (stripped (svc ''svc1''))\<lparr>service_rev := Some ''1''\<rparr>)]\<rparr>)"
    by code_simp
  have c: "calls (putFullService_prepare memApi ''svc1'' 0 (svc ''svc1'') False
                    (holding [svc ''svc1''] fresh)) = []"
    by (simp add: putFullService_prepare_def holding_def)
  show ?thesis
    using putFullService_missing_nextDescendents [OF h n p] c
    by simp
qed

subsection \<open>Importing a batch of services\<close>

lemma putFullService_none:
  "heap st ref = None \<Longrightarrow> snd (putFullService api serviceId (Some ref) clean st) = st"
  by (simp add: putFullService_def)

lemma putFullService_extends_calls:
  "\<exists>post. calls (snd (putFullService api serviceId (Some ref) clean st)) = calls st @ post"
proof (cases "heap st ref")
  case None
  then show ?thesis by (simp add: putFullService_none)
next
  case (Some obj)
  obtain pre where "calls (putFullService_prepare api serviceId ref obj clean st) = calls st @ pre"
    using putFullService_prepare_calls [of api serviceId ref obj clean st] by blast
  then show ?thesis
    using putFullService_calls [OF Some, of api serviceId clean] by simp
qed

lemma putFullService_puts_parent:
  assumes "heap st ref = Some obj"
  shows "PutService serviceId (stripped obj) \<in> set (calls (snd (putFullService api serviceId (Some ref) clean st)))"
  using putFullService_calls [OF assms, of api serviceId clean] by simp

lemma putFullService_heap_defined:
  assumes "heap st r \<noteq> None"
  shows "heap (snd (putFullService api serviceId (Some ref) clean st)) r \<noteq> None"
proof (cases "heap st ref")
  case None
  then show ?thesis using assms by (simp add: putFullService_none)
next
  case (Some obj)
  show ?thesis
    using assms putFullService_heap [OF Some, of api serviceId clean] by simp
qed

lemma putFullServices_catch_sel [simp]:
  "calls (putFullServices_catch i e st) = calls st"
  "heap (putFullServices_catch i e st) = heap st"
  "remote (putFullServices_catch i e st) = remote st"
  by (simp_all add: putFullServices_catch_def Let_def split: option.split)

lemma putFullServices_next_sel:
  "calls (putFullServices_next api i r clean st) = calls (snd (putFullService api i (Some r) clean st))"
  "heap (putFullServices_next api i r clean st) = heap (snd (putFullService api i (Some r) clean st))"
  by (simp_all add: putFullServices_next_def split_beta split: sum.split)

lemma putFullServices_Cons_snd:
  "snd (putFullServices api ((i, r) # es) clean st) =
     snd (putFullServices api es clean (putFullServices_next api i r clean st))"
  by (simp add: putFullServices_next_def split: prod.split sum.split)

lemma putFullServices_Cons_fst:
  "fst (putFullServices api ((i, r) # es) clean st) =
     resolved [fst (putFullService api i (Some r) clean st)] @
     fst (putFullServices api es clean (putFullServices_next api i r clean st))"
  by (simp add: putFullServices_next_def split: prod.split sum.split)

lemma putFullServices_outcomes_Cons:
  "putFullServices_outcomes api ((i, r) # es) clean st =
     fst (putFullService api i (Some r) clean st) #
     putFullServices_outcomes api es clean (putFullServices_next api i r clean st)"
  by (simp add: putFullServices_next_def split: prod.split sum.split)

lemma putFullServices_outcomes_length:
  "length (putFullServices_outcomes api es clean st) = length es"
proof (induction es arbitrary: st)
  case Nil
  show ?case by simp
next
  case (Cons x es)
  obtain i r where x: "x = (i, r)" by (cases x)
  show ?case unfolding x by (simp only: putFullServices_outcomes_Cons Cons.IH list.size)
qed

lemma putFullServices_results:
  "fst (putFullServices api es clean st) = resolved (putFullServices_outcomes api es clean st)"
proof (induction es arbitrary: st)
  case Nil
  show ?case by simp
next
  case (Cons x es)
  obtain i r where x: "x = (i, r)" by (cases x)
  show ?case
    unfolding x
    by (cases "fst (putFullService api i (Some r) clean st)")
       (simp_all only: putFullServices_Cons_fst putFullServices_outcomes_Cons Cons.IH
                       resolved.simps append.simps)
qed

lemma putFullServices_extends_calls:
  "\<exists>post. calls (snd (putFullServices api es clean st)) = calls st @ post"
proof (induction es arbitrary: st)
  case Nil
  show ?case by simp
next
  case (Cons x es)
  obtain i r where x: "x = (i, r)" by (cases x)
  obtain p1 where p1: "calls (putFullServices_next api i r clean st) = calls st @ p1"
    using putFullService_extends_calls [of api i r clean st]
    by (auto simp add: putFullServices_next_sel)
  obtain p2 where "calls (snd (putFullServices api es clean (putFullServices_next api i r clean st)))
                   = calls (putFullServices_next api i r clean st) @ p2"
    using Cons.IH by blast
  then show ?case
    unfolding x putFullServices_Cons_snd p1 by auto
qed

lemma putFullServices_attempts:
  assumes "(i, r) \<in> set es" and "heap st r \<noteq> None"
  shows "\<exists>body. PutService i body \<in> set (calls (snd (putFullServices api es clean st)))"
  using assms
proof (induction es arbitrary: st)
  case Nil
  then show ?case by simp
next
  case (Cons x es)
  obtain j q where x: "x = (j, q)" by (cases x)
  let ?st1 = "putFullServices_next api j q clean st"
  show ?case
  proof (cases "(i, r) = (j, q)")
    case True
    from Cons.prems(2) obtain obj where obj: "heap st r = Some obj" by auto
    have "PutService i (stripped obj) \<in> set (calls ?st1)"
      using putFullService_puts_parent [OF obj, of i api clean] True
      by (simp add: putFullServices_next_sel)
    moreover obtain post where "calls (snd (putFullServices api es clean ?st1)) = calls ?st1 @ post"
      using putFullServices_extends_calls by blast
    ultimately have "PutService i (stripped obj) \<in> set (calls (snd (putFullServices api es clean ?st1)))"
      by simp
    then show ?thesis
      unfolding x by (auto simp only: putFullServices_Cons_snd)
  next
    case False
    then have m: "(i, r) \<in> set es" using Cons.prems(1) x by auto
    have h: "heap ?st1 r \<noteq> None"
      using putFullService_heap_defined [OF Cons.prems(2), of api j q clean]
      by (simp add: putFullServices_next_sel)
    from Cons.IH [OF m h] show ?thesis
      unfolding x by (simp only: putFullServices_Cons_snd)
  qed
qed

lemma putFullServices_append:
  "putFullServices api (es1 @ es2) clean st =
     (fst (putFullServices api es1 clean st) @
      fst (putFullServices api es2 clean (snd (putFullServices api es1 clean st))),
      snd (putFullServices api es2 clean (snd (putFullServices api es1 clean st))))"
proof (induction es1 arbitrary: st)
  case Nil
  show ?case by simp
next
  case (Cons x es1)
  obtain i r where x: "x = (i, r)" by (cases x)
  have "fst (putFullServices api (x # es1 @ es2) clean st) =
          fst (putFullServices api (x # es1) clean st) @
          fst (putFullServices api es2 clean (snd (putFullServices api (x # es1) clean st)))"
    unfolding x
    by (simp only: putFullServices_Cons_fst putFullServices_Cons_snd Cons.IH fst_conv snd_conv
                   append_assoc)
  moreover have "snd (putFullServices api (x # es1 @ es2) clean st) =
          snd (putFullServices api es2 clean (snd (putFullServices api (x # es1) clean st)))"
    unfolding x
    by (simp only: putFullServices_Cons_snd Cons.IH snd_conv)
  ultimately show ?case
    by (simp add: prod_eq_iff)
qed

lemma importServices_Some:
  assumes "service importData = Some entries"
  shows "importServices api importData clean st =
           (Inr (fst (putFullServices api entries clean st)),
            snd (putFullServices api entries clean st))"
  using assms by (simp add: importServices_def split_beta)

lemma importServices_None:
  assumes "service importData = None"
  shows "(\<exists>e. fst (importServices api importData clean st) = Inl e)
         \<and> calls (snd (importServices api importData clean st)) = calls st
         \<and> remote (snd (importServices api importData clean st)) = remote st
         \<and> heap (snd (importServices api importData clean st)) = heap st"
  using assms by (simp add: importServices_def Let_def)

text \<open>
  C8. The loop of \<^verbatim>\<open>putFullServices\<close> calls \<^verbatim>\<open>putFullService\<close> once for each of the
  entries, whatever the earlier calls settled to, and returns what the successful calls
  resolved to: for every entry whose value is an object the put of the parent is issued,
  and the batch over \<open>es1 @ es2\<close> is the batch over \<open>es1\<close> followed by the batch over
  \<open>es2\<close>, whatever failed in \<open>es1\<close>. \<^verbatim>\<open>importServices\<close> on an envelope with a \<^verbatim>\<open>service\<close>
  map is that loop over its entries: it issues the same requests, leaves the same state
  and resolves to the same list. It rejects only when there is no map to enumerate, and
  then no request has been issued.
\<close>

theorem putFullServices_isolates_failures:
  "length (putFullServices_outcomes api entries clean st) = length entries
   \<and> fst (putFullServices api entries clean st) =
       resolved (putFullServices_outcomes api entries clean st)
   \<and> (\<forall>(id', ref) \<in> set entries.
         heap st ref \<noteq> None \<longrightarrow>
         (\<exists>body. PutService id' body \<in> set (calls (snd (putFullServices api entries clean st)))))
   \<and> (service importData = Some entries \<longrightarrow>
         fst (importServices api importData clean st) =
           Inr (resolved (putFullServices_outcomes api entries clean st)))
   \<and> (service importData = None \<longrightarrow>
         (\<exists>e. fst (importServices api importData clean st) = Inl e))
   \<and> (service importData = Some entries \<longrightarrow>
         snd (importServices api importData clean st) =
           snd (putFullServices api entries clean st))
   \<and> (service importData = Some entries \<longrightarrow>
         (\<forall>(id', ref) \<in> set entries.
            heap st ref \<noteq> None \<longrightarrow>
            (\<exists>body. PutService id' body
                      \<in> set (calls (snd (importServices api importData clean st))))))
   \<and> (service importData = None \<longrightarrow>
         calls (snd (importServices api importData clean st)) = calls st
         \<and> remote (snd (importServices api importData clean st)) = remote st
         \<and> heap (snd (importServices api importData clean st)) = heap st)
   \<and> (\<forall>es1 es2.
         entries = es1 @ es2 \<longrightarrow>
         fst (putFullServices api entries clean st) =
           fst (putFullServices api es1 clean st) @
           fst (putFullServices api es2 clean (snd (putFullServices api es1 clean st))))"
proof -
  have 1: "length (putFullServices_outcomes api entries clean st) = length entries"
    by (rule putFullServices_outcomes_length)
  have 2: "fst (putFullServices api entries clean st) =
             resolved (putFullServices_outcomes api entries clean st)"
    by (rule putFullServices_results)
  have 3: "\<forall>(id', ref) \<in> set entries.
             heap st ref \<noteq> None \<longrightarrow>
             (\<exists>body. PutService id' body \<in> set (calls (snd (putFullServices api entries clean st))))"
    using putFullServices_attempts [of _ _ entries st api clean] by blast
  have 4: "service importData = Some entries \<longrightarrow>
             fst (importServices api importData clean st) =
               Inr (resolved (putFullServices_outcomes api entries clean st))"
    using 2 by (simp add: importServices_Some)
  have 5: "service importData = None \<longrightarrow>
             (\<exists>e. fst (importServices api importData clean st) = Inl e)"
    using importServices_None [of importData api clean st] by blast
  have 6: "service importData = Some entries \<longrightarrow>
             snd (importServices api importData clean st) =
               snd (putFullServices api entries clean st)"
    by (simp add: importServices_Some)
  have 7: "service importData = Some entries \<longrightarrow>
             (\<forall>(id', ref) \<in> set entries.
                heap st ref \<noteq> None \<longrightarrow>
                (\<exists>body. PutService id' body
                          \<in> set (calls (snd (importServices api importData clean st)))))"
    using 3 by (simp add: importServices_Some)
  have 8: "service importData = None \<longrightarrow>
             calls (snd (importServices api importData clean st)) = calls st
             \<and> remote (snd (importServices api importData clean st)) = remote st
             \<and> heap (snd (importServices api importData clean st)) = heap st"
    using importServices_None [of importData api clean st] by blast
  have 9: "\<forall>es1 es2.
             entries = es1 @ es2 \<longrightarrow>
             fst (putFullServices api entries clean st) =
               fst (putFullServices api es1 clean st) @
               fst (putFullServices api es2 clean (snd (putFullServices api es1 clean st)))"
    by (simp add: putFullServices_append)
  from 1 2 3 4 5 6 7 8 9 show ?thesis by blast
qed

text \<open>
  The envelope of the import scenario on a backend that refuses \<open>svc1\<close>: the first entry
  fails, the second is imported and reported, both parents were put by
  \<^verbatim>\<open>importServices\<close>; an envelope without services rejects and issues no request.
\<close>

theorem putFullServices_isolates_failures_witness:
  "putFullServices_outcomes memApi [(''svc1'', 0), (''svc2'', 1)] False
     (holding [svc1_full, svc2_full] svc1_broken) =
     [Inl (httpError 500 ''Internal Server Error''),
      Inr (Some ((stripped svc2_full)\<lparr>service_rev := Some ''1''\<rparr>))]
   \<and> fst (importServices memApi envelope False (holding [svc1_full, svc2_full] svc1_broken)) =
       Inr [Some ((stripped svc2_full)\<lparr>service_rev := Some ''1''\<rparr>)]
   \<and> (\<exists>body. PutService ''svc1'' body
                \<in> set (calls (snd (putFullServices memApi [(''svc1'', 0), (''svc2'', 1)] False
                                       (holding [svc1_full, svc2_full] svc1_broken)))))
   \<and> (\<exists>body. PutService ''svc2'' body
                \<in> set (calls (snd (putFullServices memApi [(''svc1'', 0), (''svc2'', 1)] False
                                       (holding [svc1_full, svc2_full] svc1_broken)))))
   \<and> (\<exists>body. PutService ''svc1'' body
                \<in> set (calls (snd (importServices memApi envelope False
                                       (holding [svc1_full, svc2_full] svc1_broken)))))
   \<and> (\<exists>body. PutService ''svc2'' body
                \<in> set (calls (snd (importServices memApi envelope False
                                       (holding [svc1_full, svc2_full] svc1_broken)))))
   \<and> (\<exists>e. fst (importServices memApi envelope_without_services False
                   (holding [svc1_full, svc2_full] svc1_broken)) = Inl e)
   \<and> calls (snd (importServices memApi envelope_without_services False
                     (holding [svc1_full, svc2_full] svc1_broken))) = []"
proof -
  have o: "putFullServices_outcomes memApi [(''svc1'', 0), (''svc2'', 1)] False
             (holding [svc1_full, svc2_full] svc1_broken) =
           [Inl (httpError 500 ''Internal Server Error''),
            Inr (Some ((stripped svc2_full)\<lparr>service_rev := Some ''1''\<rparr>))]"
    by code_simp
  have e: "service envelope = Some [(''svc1'', 0), (''svc2'', 1)]"
    by (simp add: envelope_def)
  have n: "service envelope_without_services = None"
    by (simp add: envelope_without_services_def)
  have h: "heap (holding [svc1_full, svc2_full] svc1_broken) 0 \<noteq> None"
          "heap (holding [svc1_full, svc2_full] svc1_broken) 1 \<noteq> None"
    by (simp_all add: holding_def)
  have c: "calls (holding [svc1_full, svc2_full] svc1_broken) = []"
    by (simp add: holding_def)
  show ?thesis
    using putFullServices_isolates_failures
            [of memApi "[(''svc1'', 0), (''svc2'', 1)]" False
                "holding [svc1_full, svc2_full] svc1_broken" envelope]
          putFullServices_isolates_failures
            [of memApi "[(''svc1'', 0), (''svc2'', 1)]" False
                "holding [svc1_full, svc2_full] svc1_broken" envelope_without_services]
          o e n h c
    by auto
qed

subsection \<open>Exporting all services\<close>

lemma getFullServices_item_fst:
  "fst (getFullServices_item api x st) =
     (case fetchItem api (remote st) (settlesFirst api (calls st @ itemRequests x)) x of
        Inl e \<Rightarrow> None
      | Inr (s, ds) \<Rightarrow> Some (s\<lparr>nextDescendents := Some ds\<rparr>))"
  by (simp add: getFullServices_item_def fetchItem_def itemRequests_def split_beta
           split: sum.split)

lemma getFullServices_item_remote: "remote (snd (getFullServices_item api x st)) = remote st"
  by (simp add: getFullServices_item_def split_beta split: sum.split)

lemma getFullServices_item_calls:
  "calls (snd (getFullServices_item api x st)) = calls st @ itemRequests x"
  by (simp add: getFullServices_item_def itemRequests_def split_beta split: sum.split)

lemma getFullServices_item_console:
  "console (snd (getFullServices_item api x st)) =
     console st @
     printed x (fetchItem api (remote st) (settlesFirst api (calls st @ itemRequests x)) x)"
  by (simp add: getFullServices_item_def fetchItem_def retrievalError_def printed_def
                itemRequests_def split_beta
           split: sum.split)

lemma getFullServices_items_fst:
  "List.map_filter (\<lambda>data. data) (fst (mapAsync (getFullServices_item api) xs st)) =
     concat (map exported (itemOutcomes api (remote st) (calls st) xs))"
proof (induction xs arbitrary: st)
  case Nil
  show ?case by (simp add: List.map_filter_simps)
next
  case (Cons x xs)
  have "List.map_filter (\<lambda>data. data) (fst (mapAsync (getFullServices_item api) (x # xs) st)) =
          (case fst (getFullServices_item api x st) of None \<Rightarrow> [] | Some v \<Rightarrow> [v]) @
          List.map_filter (\<lambda>data. data)
            (fst (mapAsync (getFullServices_item api) xs (snd (getFullServices_item api x st))))"
    by (simp only: fst_mapAsync_Cons) (simp add: List.map_filter_simps split: option.split)
  then show ?case
    by (simp add: Cons.IH getFullServices_item_remote getFullServices_item_calls
                  getFullServices_item_fst exported_def
             split: sum.split)
qed

lemma getFullServices_items_console:
  "console (snd (mapAsync (getFullServices_item api) xs st)) =
     console st @
     concat (map (\<lambda>(listItem, outcome). printed listItem outcome)
                 (zip xs (itemOutcomes api (remote st) (calls st) xs)))"
proof (induction xs arbitrary: st)
  case Nil
  show ?case by simp
next
  case (Cons x xs)
  show ?case
    by (simp only: snd_mapAsync_Cons Cons.IH getFullServices_item_remote
                   getFullServices_item_calls getFullServices_item_console)
       simp
qed

lemma itemOutcomes_length: "length (itemOutcomes api w h xs) = length xs"
  by (induction xs arbitrary: h) simp_all

lemma itemOutcomes_nth:
  "i < length xs \<Longrightarrow> \<exists>k. itemOutcomes api w h xs ! i = fetchItem api w k (xs ! i)"
proof (induction xs arbitrary: h i)
  case Nil
  then show ?case by simp
next
  case (Cons x xs)
  show ?case
  proof (cases i)
    case 0
    then show ?thesis by auto
  next
    case (Suc j)
    then have "j < length xs" using Cons.prems by simp
    from Cons.IH [OF this, of "h @ itemRequests x"] show ?thesis
      using Suc by simp
  qed
qed

lemma fetchItem_cases:
  "(\<forall>s ds. getService api (service_id x) w = Inr s \<and>
            getServiceDescendents api (service_id x) w = Inr ds
            \<longrightarrow> fetchItem api w k x = Inr (s, ds))
   \<and> (\<forall>e ds. getService api (service_id x) w = Inl e \<and>
              getServiceDescendents api (service_id x) w = Inr ds
              \<longrightarrow> fetchItem api w k x = Inl e)
   \<and> (\<forall>s e. getService api (service_id x) w = Inr s \<and>
             getServiceDescendents api (service_id x) w = Inl e
             \<longrightarrow> fetchItem api w k x = Inl e)
   \<and> (\<forall>e1 e2. getService api (service_id x) w = Inl e1 \<and>
               getServiceDescendents api (service_id x) w = Inl e2
               \<longrightarrow> fetchItem api w k x = Inl e1 \<or> fetchItem api w k x = Inl e2)"
proof -
  have "k mod 2 = 0 \<or> k mod 2 = Suc 0" by arith
  then show ?thesis
    by (auto simp add: fetchItem_def promiseAll2_def)
qed

text \<open>
  C4. Once the services are listed, each list item adds to the result and to the printed
  errors on its own: an item retrieved adds its service with its descendents to the
  result; an item whose retrieval fails with status 403 and the message of the
  unavailable operation adds nothing to either; an item whose retrieval fails in any other
  way adds one error line and nothing to the result. The entries of the other items are
  not affected. The retrieval of an item succeeds when both its requests succeed, fails
  with the error of the one request that fails, and when both fail it fails with the error
  of one of the two: the one that settles first.
\<close>

theorem getFullServices_filters_capability_gap:
  assumes "getListOfServices api (remote st) = Inr serviceList"
  shows "fst (getFullServices api st) =
           Inr (concat (map exported (getFullServices_outcomes api serviceList st)))
         \<and> console (snd (getFullServices api st)) =
             console st @
             concat (map (\<lambda>(listItem, outcome). printed listItem outcome)
                         (zip serviceList (getFullServices_outcomes api serviceList st)))
         \<and> length (getFullServices_outcomes api serviceList st) = length serviceList
         \<and> (\<forall>i < length serviceList.
               (\<forall>s ds. getService api (service_id (serviceList ! i)) (remote st) = Inr s \<and>
                        getServiceDescendents api (service_id (serviceList ! i)) (remote st) = Inr ds
                        \<longrightarrow> getFullServices_outcomes api serviceList st ! i = Inr (s, ds))
               \<and> (\<forall>e ds. getService api (service_id (serviceList ! i)) (remote st) = Inl e \<and>
                          getServiceDescendents api (service_id (serviceList ! i)) (remote st) = Inr ds
                          \<longrightarrow> getFullServices_outcomes api serviceList st ! i = Inl e)
               \<and> (\<forall>s e. getService api (service_id (serviceList ! i)) (remote st) = Inr s \<and>
                         getServiceDescendents api (service_id (serviceList ! i)) (remote st) = Inl e
                         \<longrightarrow> getFullServices_outcomes api serviceList st ! i = Inl e)
               \<and> (\<forall>e1 e2. getService api (service_id (serviceList ! i)) (remote st) = Inl e1 \<and>
                           getServiceDescendents api (service_id (serviceList ! i)) (remote st) = Inl e2
                           \<longrightarrow> getFullServices_outcomes api serviceList st ! i = Inl e1
                               \<or> getFullServices_outcomes api serviceList st ! i = Inl e2))"
proof -
  let ?st1 = "snd (fetch GetListOfServices (getListOfServices api) st)"
  have 1: "fst (getFullServices api st) =
             Inr (concat (map exported (getFullServices_outcomes api serviceList st)))"
    using assms getFullServices_items_fst [of api serviceList ?st1]
    by (simp add: getFullServices_def getFullServices_outcomes_def split_beta)
  have 2: "console (snd (getFullServices api st)) =
             console st @
             concat (map (\<lambda>(listItem, outcome). printed listItem outcome)
                         (zip serviceList (getFullServices_outcomes api serviceList st)))"
    using assms getFullServices_items_console [of api serviceList ?st1]
    by (simp add: getFullServices_def getFullServices_outcomes_def split_beta)
  have 3: "length (getFullServices_outcomes api serviceList st) = length serviceList"
    by (simp add: getFullServices_outcomes_def itemOutcomes_length)
  have 4: "(\<forall>s ds. getService api (service_id (serviceList ! i)) (remote st) = Inr s \<and>
                        getServiceDescendents api (service_id (serviceList ! i)) (remote st) = Inr ds
                        \<longrightarrow> getFullServices_outcomes api serviceList st ! i = Inr (s, ds))
               \<and> (\<forall>e ds. getService api (service_id (serviceList ! i)) (remote st) = Inl e \<and>
                          getServiceDescendents api (service_id (serviceList ! i)) (remote st) = Inr ds
                          \<longrightarrow> getFullServices_outcomes api serviceList st ! i = Inl e)
               \<and> (\<forall>s e. getService api (service_id (serviceList ! i)) (remote st) = Inr s \<and>
                         getServiceDescendents api (service_id (serviceList ! i)) (remote st) = Inl e
                         \<longrightarrow> getFullServices_outcomes api serviceList st ! i = Inl e)
               \<and> (\<forall>e1 e2. getService api (service_id (serviceList ! i)) (remote st) = Inl e1 \<and>
                           getServiceDescendents api (service_id (serviceList ! i)) (remote st) = Inl e2
                           \<longrightarrow> getFullServices_outcomes api serviceList st ! i = Inl e1
                               \<or> getFullServices_outcomes api serviceList st ! i = Inl e2)"
    if lt: "i < length serviceList" for i
  proof -
    obtain k where "getFullServices_outcomes api serviceList st ! i =
                      fetchItem api (remote st) k (serviceList ! i)"
      using itemOutcomes_nth [OF lt, of api "remote st" "calls st @ [GetListOfServices]"]
      unfolding getFullServices_outcomes_def by blast
    then show ?thesis
      using fetchItem_cases [of api "serviceList ! i" "remote st" k] by simp
  qed
  from 1 2 3 4 show ?thesis by blast
qed

text \<open>
  Four listed services: \<open>svc1\<close> is retrieved, \<open>svc2\<close> meets the capability gap, \<open>svc3\<close>
  fails with 500, and of the two requests for \<open>svc4\<close> one meets the capability gap and
  the other fails with 500. The result holds \<open>svc1\<close> alone. When the gap of \<open>svc4\<close>
  settles first, the only line printed is about \<open>svc3\<close>; when its 500 settles first,
  a line about \<open>svc4\<close> is printed as well.
\<close>

theorem getFullServices_filters_capability_gap_witness:
  "getFullServices_outcomes memApi [svc ''svc1'', svc ''svc2'', svc ''svc3'', svc ''svc4'']
     (start four_services) =
     [Inr (svc ''svc1'', [child ''a'' ''c1'', child ''b'' ''c2'']),
      Inl capabilityGap,
      Inl (httpError 500 ''Internal Server Error''),
      Inl capabilityGap]
   \<and> fst (getFullServices memApi (start four_services)) =
       Inr [(svc ''svc1'')\<lparr>nextDescendents := Some [child ''a'' ''c1'', child ''b'' ''c2'']\<rparr>]
   \<and> console (snd (getFullServices memApi (start four_services))) =
       [(''Unable to retrieve data for svc3 with error: Internal Server Error'', ''error'')]
   \<and> fst (getFullServices memApi_second_first (start four_services)) =
       Inr [(svc ''svc1'')\<lparr>nextDescendents := Some [child ''a'' ''c1'', child ''b'' ''c2'']\<rparr>]
   \<and> console (snd (getFullServices memApi_second_first (start four_services))) =
       [(''Unable to retrieve data for svc3 with error: Internal Server Error'', ''error''),
        (''Unable to retrieve data for svc4 with error: Internal Server Error'', ''error'')]"
proof -
  have l: "getListOfServices memApi (remote (start four_services)) =
             Inr [svc ''svc1'', svc ''svc2'', svc ''svc3'', svc ''svc4'']"
    by code_simp
  have l': "getListOfServices memApi_second_first (remote (start four_services)) =
             Inr [svc ''svc1'', svc ''svc2'', svc ''svc3'', svc ''svc4'']"
    by code_simp
  have c: "console (start four_services) = []"
    by (simp add: start_def)
  have o: "getFullServices_outcomes memApi [svc ''svc1'', svc ''svc2'', svc ''svc3'', svc ''svc4'']
             (start four_services) =
           [Inr (svc ''svc1'', [child ''a'' ''c1'', child ''b'' ''c2'']),
            Inl capabilityGap,
            Inl (httpError 500 ''Internal Server Error''),
            Inl capabilityGap]"
    by code_simp
  have o': "getFullServices_outcomes memApi_second_first
              [svc ''svc1'', svc ''svc2'', svc ''svc3'', svc ''svc4''] (start four_services) =
           [Inr (svc ''svc1'', [child ''a'' ''c1'', child ''b'' ''c2'']),
            Inl capabilityGap,
            Inl (httpError 500 ''Internal Server Error''),
            Inl (httpError 500 ''Internal Server Error'')]"
    by code_simp
  have g: "notAvailableInCloud capabilityGap"
    by code_simp
  have n: "\<not> notAvailableInCloud (httpError 500 ''Internal Server Error'')"
    by code_simp
  have m3: "retrievalError (svc ''svc3'') (httpError 500 ''Internal Server Error'') =
             (''Unable to retrieve data for svc3 with error: Internal Server Error'', ''error'')"
    by code_simp
  have m4: "retrievalError (svc ''svc4'') (httpError 500 ''Internal Server Error'') =
             (''Unable to retrieve data for svc4 with error: Internal Server Error'', ''error'')"
    by code_simp
  have a: "fst (getFullServices memApi (start four_services)) =
       Inr [(svc ''svc1'')\<lparr>nextDescendents := Some [child ''a'' ''c1'', child ''b'' ''c2'']\<rparr>]
     \<and> console (snd (getFullServices memApi (start four_services))) =
       [(''Unable to retrieve data for svc3 with error: Internal Server Error'', ''error'')]"
    using getFullServices_filters_capability_gap [OF l]
    by (simp add: o c g n m3 exported_def printed_def)
  have b: "fst (getFullServices memApi_second_first (start four_services)) =
       Inr [(svc ''svc1'')\<lparr>nextDescendents := Some [child ''a'' ''c1'', child ''b'' ''c2'']\<rparr>]
     \<and> console (snd (getFullServices memApi_second_first (start four_services))) =
       [(''Unable to retrieve data for svc3 with error: Internal Server Error'', ''error''),
        (''Unable to retrieve data for svc4 with error: Internal Server Error'', ''error'')]"
    using getFullServices_filters_capability_gap [OF l']
    by (simp add: o' c g n m3 m4 exported_def printed_def)
  from o a b show ?thesis by blast
qed

subsection \<open>The content transform of script bodies\<close>

lemma splitLines_nonempty: "splitLines s \<noteq> []"
  by (induction s) (simp_all split: list.split)

lemma joinLines_Cons: "ls \<noteq> [] \<Longrightarrow> joinLines (l # ls) = l @ CHR 0x0A # joinLines ls"
  by (cases ls) simp_all

lemma joinLines_Cons_char: "joinLines ((c # l) # ls) = c # joinLines (l # ls)"
  by (cases ls) simp_all

lemma joinLines_splitLines: "joinLines (splitLines s) = s"
proof (induction s)
  case Nil
  show ?case by simp
next
  case (Cons c cs)
  show ?case
  proof (cases "c = CHR 0x0A")
    case True
    then show ?thesis
      using Cons.IH by (simp add: joinLines_Cons splitLines_nonempty)
  next
    case False
    obtain l ls where s: "splitLines cs = l # ls"
      using splitLines_nonempty [of cs] by (cases "splitLines cs") simp_all
    show ?thesis
      using False Cons.IH s by (simp add: joinLines_Cons_char)
  qed
qed

lemma splitLines_no_line_feed: "l \<in> set (splitLines s) \<Longrightarrow> CHR 0x0A \<notin> set l"
proof (induction s arbitrary: l)
  case Nil
  then show ?case by simp
next
  case (Cons c cs)
  obtain k ks where s: "splitLines cs = k # ks"
    using splitLines_nonempty [of cs] by (cases "splitLines cs") simp_all
  show ?case
    using Cons.prems Cons.IH s by (auto split: if_splits)
qed

text \<open>
  C5. Splitting a text blob into lines and joining the lines again gives the blob back,
  for every blob; the empty blob gives the empty sequence of lines.
\<close>

theorem script_content_roundtrip:
  "convertTextArrayToBase64 (convertBase64TextToArray b64text) = b64text
   \<and> convertBase64TextToArray [] = []"
  by (simp add: convertTextArrayToBase64_def convertBase64TextToArray_def joinLines_splitLines)

end
